theory Spec2Isabelle
  imports Main "HOL-Library.Word"
begin

section \<open>The server-side census filter of the gRPC plugin\<close>

text \<open>
  A shallow embedding of \<^verbatim>\<open>opencensus/plugins/grpc/internal/server_filter.cc\<close>.
  Every function of the file is a HOL function of the same name. The call data
  (\<^verbatim>\<open>CensusServerCallData\<close>) is a record that is passed in and returned updated; memory
  that the filter shares with the transport (metadata batches, the slot that holds the
  received message) is an explicit store indexed by addresses; every call of a function
  of the gRPC core, of the stats library or of the tracing library that acts on the
  outside is appended to a list of effects, in program order. A failed
  \<^verbatim>\<open>GPR_ASSERT\<close> and a dereferenced null pointer are values of type \<open>fault\<close>.
\<close>

subsection \<open>Slices, string views and time\<close>

text \<open>
  A \<^verbatim>\<open>grpc_slice\<close> is its byte content; reference counts are not modelled, so
  \<^verbatim>\<open>grpc_slice_ref_internal\<close> returns its argument. \<^verbatim>\<open>absl::string_view(p, n)\<close> is
  the first \<open>n\<close> bytes at \<open>p\<close>.
\<close>

type_synonym grpc_slice = string

definition grpc_empty_slice :: grpc_slice where
  "grpc_empty_slice = []"

definition GRPC_SLICE_LENGTH :: "grpc_slice \<Rightarrow> nat" where
  "GRPC_SLICE_LENGTH s = length s"

definition GRPC_SLICE_IS_EMPTY :: "grpc_slice \<Rightarrow> bool" where
  "GRPC_SLICE_IS_EMPTY s = (GRPC_SLICE_LENGTH s = 0)"

definition GRPC_SLICE_START_PTR :: "grpc_slice \<Rightarrow> string" where
  "GRPC_SLICE_START_PTR s = s"

definition grpc_slice_ref_internal :: "grpc_slice \<Rightarrow> grpc_slice" where
  "grpc_slice_ref_internal s = s"

definition grpc_slice_from_copied_buffer :: "string \<Rightarrow> nat \<Rightarrow> grpc_slice" where
  "grpc_slice_from_copied_buffer buf len = take len buf"

definition string_view :: "string \<Rightarrow> nat \<Rightarrow> string" where
  "string_view p n = take n p"

text \<open>
  \<^verbatim>\<open>absl::Time\<close> and \<^verbatim>\<open>absl::Duration\<close> are counted in nanoseconds.
  \<^verbatim>\<open>absl::ToInt64Nanoseconds\<close> saturates at the ends of the 64-bit range.
\<close>

type_synonym absl_Time = int
type_synonym absl_Duration = int

definition absl_ZeroDuration :: absl_Duration where
  "absl_ZeroDuration = 0"

definition absl_ToInt64Nanoseconds :: "absl_Duration \<Rightarrow> int" where
  "absl_ToInt64Nanoseconds d = max (- (2 ^ 63)) (min (2 ^ 63 - 1) d)"

subsection \<open>Constants of the file\<close>

definition kMaxStatsLen :: nat where
  "kMaxStatsLen = 2046"

definition kMaxTracingLen :: nat where
  "kMaxTracingLen = 128"

definition kMaxServerStatsLen :: nat where
  "kMaxServerStatsLen = 32"

subsection \<open>Errors, closures and metadata batches of the gRPC core\<close>

datatype grpc_error = GRPC_ERROR_NONE | GRPC_ERROR string

definition GRPC_ERROR_REF :: "grpc_error \<Rightarrow> grpc_error" where
  "GRPC_ERROR_REF e = e"

text \<open>
  A pointer to a closure is the address of one of the two closures that the call data
  owns, or the address of a closure of another pipeline stage; \<open>None\<close> is
  \<^verbatim>\<open>nullptr\<close>. A closure itself is the callback that \<^verbatim>\<open>GRPC_CLOSURE_INIT\<close> stored in
  it.
\<close>

datatype grpc_closure_ptr =
    Addr_on_done_recv_initial_metadata
  | Addr_on_done_recv_message
  | Closure_at nat

datatype closure_cb = Cb_OnDoneRecvInitialMetadataCb | Cb_OnDoneRecvMessageCb

type_synonym grpc_closure = "closure_cb option"

text \<open>
  A metadata batch. The source reads a batch only through its index of well-known keys
  (\<^verbatim>\<open>b->idx.named.path\<close> and so on), where a null entry means that the key is absent, so
  the record has one optional value per indexed key (the value is
  \<^verbatim>\<open>GRPC_MDVALUE\<close> of the linked element) and keeps the elements without an index as a
  list. \<^verbatim>\<open>grpc_metadata_batch_remove\<close> unlinks the element it is given, which clears
  its index entry. \<^verbatim>\<open>grpc_metadata_batch_add_tail\<close> links an element at the end; for an
  indexed key that the batch already holds it links nothing and returns an error.
\<close>

record grpc_metadata_batch =
  idx_named_path :: "grpc_slice option"
  idx_named_grpc_trace_bin :: "grpc_slice option"
  idx_named_grpc_tags_bin :: "grpc_slice option"
  idx_named_grpc_server_stats_bin :: "grpc_slice option"
  unindexed :: "(grpc_slice \<times> grpc_slice) list"

definition grpc_metadata_batch_remove_grpc_trace_bin ::
  "grpc_metadata_batch \<Rightarrow> grpc_metadata_batch" where
  "grpc_metadata_batch_remove_grpc_trace_bin b = b\<lparr>idx_named_grpc_trace_bin := None\<rparr>"

definition grpc_metadata_batch_remove_grpc_tags_bin ::
  "grpc_metadata_batch \<Rightarrow> grpc_metadata_batch" where
  "grpc_metadata_batch_remove_grpc_tags_bin b = b\<lparr>idx_named_grpc_tags_bin := None\<rparr>"

definition grpc_metadata_batch_add_tail_GRPC_SERVER_STATS_BIN ::
  "grpc_metadata_batch \<Rightarrow> grpc_slice \<Rightarrow> grpc_metadata_batch \<times> grpc_error" where
  "grpc_metadata_batch_add_tail_GRPC_SERVER_STATS_BIN b v =
     (case idx_named_grpc_server_stats_bin b of
        None \<Rightarrow> (b\<lparr>idx_named_grpc_server_stats_bin := Some v\<rparr>, GRPC_ERROR_NONE)
      | Some old \<Rightarrow> (b, GRPC_ERROR ''Unallowed duplicate metadata''))"

subsection \<open>Operation batches\<close>

text \<open>
  \<^verbatim>\<open>grpc::TransportStreamOpBatch\<close>, with one field for each accessor that the source
  calls. \<^verbatim>\<open>op->recv_initial_metadata()\<close> and \<^verbatim>\<open>op->send_trailing_metadata()\<close> are null
  or a \<^verbatim>\<open>MetadataBatch\<close>, whose \<^verbatim>\<open>batch()\<close> is a pointer to the batch in the store.
  \<^verbatim>\<open>op->recv_message()\<close> is null or the address of the slot in which the transport
  leaves the received message; \<^verbatim>\<open>op->op()->payload->recv_message.recv_message\<close> is
  that same address whenever \<^verbatim>\<open>op->recv_message()\<close> is not null.
\<close>

type_synonym addr = nat
type_synonym grpc_byte_stream = string

datatype MetadataBatch = MetadataBatch (batch: "addr option")

record TransportStreamOpBatch =
  recv_initial_metadata :: "MetadataBatch option"
  recv_initial_metadata_ready :: "grpc_closure_ptr option"
  send_message :: "grpc_byte_stream option"
  recv_message :: "addr option"
  recv_message_ready :: "grpc_closure_ptr option"
  send_trailing_metadata :: "MetadataBatch option"

subsection \<open>Measures, tags and the census context\<close>

datatype measure =
    RpcServerStartedCount
  | RpcServerErrorCount
  | RpcServerRequestBytes
  | RpcServerResponseBytes
  | RpcServerServerElapsedTime
  | RpcServerRequestCount
  | RpcServerFinishedCount
  | RpcServerResponseCount

datatype tag_key = kMethodTagKey | kStatusTagKey

text \<open>
  The value of a measurement, as the source writes it: an integer literal, one of the
  two message counters (their integer type \<open>'n\<close> is declared in
  \<^verbatim>\<open>server_filter.h\<close>, which is not part of the sources, and is a parameter of the
  model), or a \<^verbatim>\<open>double\<close>. Floating-point conversions are kept symbolic:
  \<open>static_cast_double x\<close> is \<^verbatim>\<open>static_cast<double>(x)\<close> and
  \<open>absl_ToDoubleMilliseconds d\<close> is \<^verbatim>\<open>absl::ToDoubleMilliseconds(d)\<close>.
\<close>

datatype double_value =
    static_cast_double "64 word"
  | absl_ToDoubleMilliseconds absl_Duration

datatype 'n measurement_value =
    Int_literal int
  | Counter 'n
  | Double double_value

type_synonym 'n measurement = "measure \<times> 'n measurement_value"
type_synonym tag = "tag_key \<times> string"

type_synonym grpc_call = nat

datatype grpc_auth_context = grpc_call_auth_context grpc_call

text \<open>
  \<^verbatim>\<open>GenerateServerContext(tracing, stats, primary_role, method, &context)\<close> is defined
  outside this file; the context it leaves in \<^verbatim>\<open>context\<close> is the constructor
  \<open>ServerContext\<close> applied to its four inputs.
\<close>

datatype CensusContext =
    CensusContext_default
  | ServerContext string string string string

subsection \<open>The call data, the call element and the store\<close>

text \<open>
  The members of \<^verbatim>\<open>CensusServerCallData\<close>. A member \<^verbatim>\<open>name_\<close> of the class is the
  field \<open>m_name\<close> of the record.
\<close>

record 'n CensusServerCallData =
  m_gc :: "grpc_call option"
  m_auth_context :: "grpc_auth_context option"
  m_context :: CensusContext
  m_method :: string
  m_path :: grpc_slice
  m_recv_initial_metadata :: "addr option"
  m_initial_on_done_recv_initial_metadata :: "grpc_closure_ptr option"
  m_on_done_recv_initial_metadata :: grpc_closure
  m_initial_on_done_recv_message :: "grpc_closure_ptr option"
  m_recv_message :: "addr option"
  m_recv_message_count :: 'n
  m_sent_message_count :: 'n
  m_on_done_recv_message :: grpc_closure
  m_start_time :: absl_Time
  m_elapsed_time :: absl_Duration

datatype CensusChannelData = CensusChannelData

record 'n grpc_call_element =
  call_data :: "'n CensusServerCallData option"
  channel_data :: "CensusChannelData option"

datatype 'n effect =
    Eff_GenerateServerContext string string string string
  | Eff_stats_Record "'n measurement list" "tag list"
  | Eff_grpc_slice_unref_internal grpc_slice
  | Eff_grpc_census_call_set_context "grpc_call option" CensusContext
  | Eff_GRPC_CLOSURE_RUN "grpc_closure_ptr option" grpc_error
  | Eff_gpr_log_error string grpc_error
  | Eff_grpc_call_next_op TransportStreamOpBatch
  | Eff_grpc_auth_context_release "grpc_auth_context option"
  | Eff_EndSpan CensusContext

text \<open>
  The store: the metadata batches and the message slots by address (a slot holds a
  pointer to a byte stream, \<open>None\<close> when that pointer is null), and the effects so far.
\<close>

record 'n world =
  metadata_batches :: "addr \<Rightarrow> grpc_metadata_batch option"
  byte_stream_slots :: "addr \<Rightarrow> grpc_byte_stream option option"
  effects :: "'n effect list"

datatype fault = GPR_ASSERT_failed | Null_dereference | Invalid_pointer

definition emit :: "'n effect \<Rightarrow> 'n world \<Rightarrow> 'n world" where
  "emit e w = w\<lparr>effects := effects w @ [e]\<rparr>"

text \<open>\<^verbatim>\<open>GRPC_LOG_IF_ERROR(what, error)\<close> writes a log line when \<open>error\<close> is an error.\<close>

definition GRPC_LOG_IF_ERROR :: "string \<Rightarrow> grpc_error \<Rightarrow> 'n world \<Rightarrow> 'n world" where
  "GRPC_LOG_IF_ERROR what error w =
     (if error = GRPC_ERROR_NONE then w else emit (Eff_gpr_log_error what error) w)"

subsection \<open>FilterInitialMetadata\<close>

record ServerMetadataElements =
  path :: grpc_slice
  tracing_slice :: grpc_slice
  census_proto :: grpc_slice

definition FilterInitialMetadata ::
  "grpc_metadata_batch \<Rightarrow> ServerMetadataElements \<Rightarrow> grpc_metadata_batch \<times> ServerMetadataElements" where
  "FilterInitialMetadata b sml =
     (let sml1 = (case idx_named_path b of
                    None \<Rightarrow> sml
                  | Some v \<Rightarrow> sml\<lparr>path := grpc_slice_ref_internal v\<rparr>);
          (b2, sml2) = (case idx_named_grpc_trace_bin b of
                    None \<Rightarrow> (b, sml1)
                  | Some v \<Rightarrow> (grpc_metadata_batch_remove_grpc_trace_bin b,
                               sml1\<lparr>tracing_slice := grpc_slice_ref_internal v\<rparr>))
      in (case idx_named_grpc_tags_bin b2 of
            None \<Rightarrow> (b2, sml2)
          | Some v \<Rightarrow> (grpc_metadata_batch_remove_grpc_tags_bin b2,
                       sml2\<lparr>census_proto := grpc_slice_ref_internal v\<rparr>)))"

subsection \<open>The encoder of the server statistics\<close>

text \<open>
  Modelled from the spec: \<^verbatim>\<open>ServerStatsSerialize(elapsed, buf, max_len)\<close> is declared
  outside \<^verbatim>\<open>server_filter.cc\<close> and its definition is not part of the sources. The
  spec gives its contract ("\<open>encode(value, out_buffer, max_len) -> byte_count_or_zero\<close>.
  Encoding must refuse (return zero length, no partial write) if the serialized form
  would exceed \<open>max_len\<close>") and leaves the wire format open, so the serialized form of a
  value is the parameter \<open>wire\<close>. The result is the byte count and the buffer after
  the call.
\<close>

definition ServerStatsSerialize ::
  "(int \<Rightarrow> string) \<Rightarrow> int \<Rightarrow> string \<Rightarrow> nat \<Rightarrow> nat \<times> string" where
  "ServerStatsSerialize wire server_elapsed_time buf max_len =
     (let serialized = wire server_elapsed_time
      in if length serialized > max_len then (0, buf)
         else (length serialized, serialized @ drop (length serialized) buf))"

subsection \<open>OnDoneRecvMessageCb\<close>

definition OnDoneRecvMessageCb ::
  "('n::semiring_1) grpc_call_element \<Rightarrow> grpc_error \<Rightarrow> 'n world
     \<Rightarrow> fault + ('n grpc_call_element \<times> 'n world)" where
  "OnDoneRecvMessageCb elem error w =
     (case call_data elem of
        None \<Rightarrow> Inl GPR_ASSERT_failed
      | Some calld \<Rightarrow>
     (case channel_data elem of
        None \<Rightarrow> Inl GPR_ASSERT_failed
      | Some channeld \<Rightarrow>
     (case m_recv_message calld of
        None \<Rightarrow> Inl Null_dereference
      | Some slot \<Rightarrow>
     (case byte_stream_slots w slot of
        None \<Rightarrow> Inl Invalid_pointer
      | Some stream \<Rightarrow>
          let calld1 = (if stream \<noteq> None
                        then calld\<lparr>m_recv_message_count := m_recv_message_count calld + 1\<rparr>
                        else calld)
          in Inr (elem\<lparr>call_data := Some calld1\<rparr>,
                  emit (Eff_GRPC_CLOSURE_RUN (m_initial_on_done_recv_message calld1)
                          (GRPC_ERROR_REF error)) w)))))"

subsection \<open>OnDoneRecvInitialMetadataCb\<close>

definition OnDoneRecvInitialMetadataCb ::
  "('n::semiring_1) grpc_call_element \<Rightarrow> grpc_error \<Rightarrow> 'n world
     \<Rightarrow> fault + ('n grpc_call_element \<times> 'n world)" where
  "OnDoneRecvInitialMetadataCb elem error w =
     (case call_data elem of
        None \<Rightarrow> Inl GPR_ASSERT_failed
      | Some calld \<Rightarrow>
          if error = GRPC_ERROR_NONE then
            (case m_recv_initial_metadata calld of
               None \<Rightarrow> Inl GPR_ASSERT_failed
             | Some initial_metadata \<Rightarrow>
            (case metadata_batches w initial_metadata of
               None \<Rightarrow> Inl Invalid_pointer
             | Some b \<Rightarrow>
                 let sml0 = \<lparr>path = grpc_empty_slice, tracing_slice = grpc_empty_slice,
                             census_proto = grpc_empty_slice\<rparr>;
                     (b1, sml) = FilterInitialMetadata b sml0;
                     w1 = w\<lparr>metadata_batches := (metadata_batches w)(initial_metadata \<mapsto> b1)\<rparr>;
                     calld1 = calld\<lparr>m_path := grpc_slice_ref_internal (path sml)\<rparr>;
                     method_str = (if GRPC_SLICE_IS_EMPTY (m_path calld1) then []
                                   else GRPC_SLICE_START_PTR (m_path calld1));
                     calld2 = calld1\<lparr>m_method := string_view method_str
                                (if GRPC_SLICE_IS_EMPTY (path sml) then 0
                                 else GRPC_SLICE_LENGTH (path sml))\<rparr>;
                     tracing_str = (if GRPC_SLICE_IS_EMPTY (tracing_slice sml) then []
                                    else GRPC_SLICE_START_PTR (tracing_slice sml));
                     tracing_str_len = (if GRPC_SLICE_IS_EMPTY (tracing_slice sml) then 0
                                        else GRPC_SLICE_LENGTH (tracing_slice sml));
                     census_str = (if GRPC_SLICE_IS_EMPTY (census_proto sml) then []
                                   else GRPC_SLICE_START_PTR (census_proto sml));
                     census_str_len = (if GRPC_SLICE_IS_EMPTY (census_proto sml) then 0
                                       else GRPC_SLICE_LENGTH (census_proto sml));
                     calld3 = calld2\<lparr>m_context :=
                                ServerContext (string_view tracing_str tracing_str_len)
                                  (string_view census_str census_str_len) [] (m_method calld2)\<rparr>;
                     w2 = emit (Eff_GenerateServerContext
                                  (string_view tracing_str tracing_str_len)
                                  (string_view census_str census_str_len) [] (m_method calld2)) w1;
                     w3 = emit (Eff_stats_Record [(RpcServerStartedCount, Int_literal 1)]
                                  [(kMethodTagKey, m_method calld3)]) w2;
                     w4 = emit (Eff_grpc_slice_unref_internal (tracing_slice sml)) w3;
                     w5 = emit (Eff_grpc_slice_unref_internal (census_proto sml)) w4;
                     w6 = emit (Eff_grpc_slice_unref_internal (path sml)) w5;
                     w7 = emit (Eff_grpc_census_call_set_context (m_gc calld3) (m_context calld3)) w6
                 in Inr (elem\<lparr>call_data := Some calld3\<rparr>,
                         emit (Eff_GRPC_CLOSURE_RUN
                                 (m_initial_on_done_recv_initial_metadata calld3)
                                 (GRPC_ERROR_REF error)) w7)))
          else Inr (elem,
                    emit (Eff_GRPC_CLOSURE_RUN (m_initial_on_done_recv_initial_metadata calld)
                            (GRPC_ERROR_REF error)) w))"

subsection \<open>StartTransportStreamOpBatch\<close>

text \<open>
  Beside the operation batch and the call data, the model takes what the function reads
  from its surroundings: \<open>now\<close> is the value of \<^verbatim>\<open>absl::Now()\<close>, \<open>buf\<close> the content
  of the uninitialised array \<^verbatim>\<open>char buf[kMaxServerStatsLen]\<close>, and \<open>wire\<close> the wire
  format of the encoder.
\<close>

definition StartTransportStreamOpBatch ::
  "(int \<Rightarrow> string) \<Rightarrow> absl_Time \<Rightarrow> string \<Rightarrow> TransportStreamOpBatch
     \<Rightarrow> ('n::semiring_1) CensusServerCallData \<Rightarrow> 'n world
     \<Rightarrow> fault + ('n CensusServerCallData \<times> 'n world)" where
  "StartTransportStreamOpBatch wire now buf op this w =
     (let (this1, op1) =
            (case recv_initial_metadata op of
               None \<Rightarrow> (this, op)
             | Some mb \<Rightarrow>
                 (this\<lparr>m_recv_initial_metadata := batch mb,
                        m_initial_on_done_recv_initial_metadata := recv_initial_metadata_ready op\<rparr>,
                  op\<lparr>recv_initial_metadata_ready := Some Addr_on_done_recv_initial_metadata\<rparr>));
          this2 =
            (case send_message op1 of
               None \<Rightarrow> this1
             | Some m \<Rightarrow> this1\<lparr>m_sent_message_count := m_sent_message_count this1 + 1\<rparr>);
          (this3, op3) =
            (case recv_message op1 of
               None \<Rightarrow> (this2, op1)
             | Some slot \<Rightarrow>
                 (this2\<lparr>m_recv_message := recv_message op1,
                         m_initial_on_done_recv_message := recv_message_ready op1\<rparr>,
                  op1\<lparr>recv_message_ready := Some Addr_on_done_recv_message\<rparr>))
      in (case send_trailing_metadata op3 of
            None \<Rightarrow> Inr (this3, emit (Eff_grpc_call_next_op op3) w)
          | Some mb \<Rightarrow>
              let this4 = this3\<lparr>m_elapsed_time := now - m_start_time this3\<rparr>;
                  (len, buf1) = ServerStatsSerialize wire
                                  (absl_ToInt64Nanoseconds (m_elapsed_time this4))
                                  buf kMaxServerStatsLen
              in if len > 0 then
                   (case batch mb of
                      None \<Rightarrow> Inl Null_dereference
                    | Some a \<Rightarrow>
                   (case metadata_batches w a of
                      None \<Rightarrow> Inl Invalid_pointer
                    | Some b \<Rightarrow>
                        let (b1, err) = grpc_metadata_batch_add_tail_GRPC_SERVER_STATS_BIN b
                                          (grpc_slice_from_copied_buffer buf1 len);
                            w1 = w\<lparr>metadata_batches := (metadata_batches w)(a \<mapsto> b1)\<rparr>;
                            w2 = GRPC_LOG_IF_ERROR ''census grpc_filter'' err w1
                        in Inr (this4, emit (Eff_grpc_call_next_op op3) w2)))
                 else Inr (this4, emit (Eff_grpc_call_next_op op3) w)))"

subsection \<open>Init and Destroy\<close>

text \<open>
  \<open>call_stack args\<close> stands for the call that
  \<^verbatim>\<open>grpc_call_from_top_element(grpc_call_stack_element(args->call_stack, 0))\<close> returns.
\<close>

record grpc_call_element_args =
  call_stack :: grpc_call

definition Init ::
  "absl_Time \<Rightarrow> grpc_call_element_args \<Rightarrow> 'n CensusServerCallData
     \<Rightarrow> grpc_error \<times> 'n CensusServerCallData" where
  "Init now args this =
     (let this1 = this\<lparr>m_start_time := now\<rparr>;
          this2 = this1\<lparr>m_gc := Some (call_stack args)\<rparr>;
          this3 = this2\<lparr>m_on_done_recv_initial_metadata := Some Cb_OnDoneRecvInitialMetadataCb\<rparr>;
          this4 = this3\<lparr>m_on_done_recv_message := Some Cb_OnDoneRecvMessageCb\<rparr>;
          this5 = this4\<lparr>m_auth_context := map_option grpc_call_auth_context (m_gc this4)\<rparr>
      in (GRPC_ERROR_NONE, this5))"

type_synonym grpc_status_code = int

definition GRPC_STATUS_OK :: grpc_status_code where
  "GRPC_STATUS_OK = 0"

text \<open>
  The final-info record of the transport. Modelled from the spec: the accessors
  \<^verbatim>\<open>GetOutgoingDataSize\<close> and \<^verbatim>\<open>GetIncomingDataSize\<close> are defined outside
  \<^verbatim>\<open>server_filter.cc\<close>; the spec has them read the "byte-size totals for
  outgoing/incoming payload (supplied by the transport's final-info record)".
\<close>

record grpc_call_final_info =
  final_status :: grpc_status_code
  outgoing_data_bytes :: "64 word"
  incoming_data_bytes :: "64 word"

definition GetOutgoingDataSize :: "grpc_call_final_info \<Rightarrow> 64 word" where
  "GetOutgoingDataSize final_info = outgoing_data_bytes final_info"

definition GetIncomingDataSize :: "grpc_call_final_info \<Rightarrow> 64 word" where
  "GetIncomingDataSize final_info = incoming_data_bytes final_info"

text \<open>
  \<^verbatim>\<open>StatusCodeToString\<close> is defined outside \<^verbatim>\<open>server_filter.cc\<close> as well and is a
  parameter of \<open>Destroy\<close>.
\<close>

definition Destroy ::
  "(grpc_status_code \<Rightarrow> string) \<Rightarrow> grpc_call_final_info
     \<Rightarrow> 'n CensusServerCallData \<Rightarrow> 'n world \<Rightarrow> 'n world" where
  "Destroy StatusCodeToString final_info this w =
     (let request_size = GetOutgoingDataSize final_info;
          response_size = GetIncomingDataSize final_info;
          elapsed_time_ms = absl_ToDoubleMilliseconds (m_elapsed_time this);
          w1 = emit (Eff_grpc_auth_context_release (m_auth_context this)) w;
          w2 = emit (Eff_stats_Record
                 [(RpcServerErrorCount,
                     Int_literal (if final_status final_info = GRPC_STATUS_OK then 0 else 1)),
                  (RpcServerRequestBytes, Double (static_cast_double request_size)),
                  (RpcServerResponseBytes, Double (static_cast_double response_size)),
                  (RpcServerServerElapsedTime, Double elapsed_time_ms),
                  (RpcServerRequestCount, Counter (m_sent_message_count this)),
                  (RpcServerFinishedCount, Int_literal 1),
                  (RpcServerResponseCount, Counter (m_recv_message_count this))]
                 [(kMethodTagKey, m_method this),
                  (kStatusTagKey, StatusCodeToString (final_status final_info))]) w1;
          w3 = emit (Eff_grpc_slice_unref_internal (m_path this)) w2
      in emit (Eff_EndSpan (m_context this)) w3)"

subsection \<open>A call from its creation on\<close>

text \<open>
  Modelled from the spec: the constructor of \<^verbatim>\<open>CensusServerCallData\<close> is in
  \<^verbatim>\<open>server_filter.h\<close>, which is not part of the sources. By the spec each of the two
  counters equals the number of the events it counts, so both start from zero; an
  \<^verbatim>\<open>elapsed_time\<close> that was never set counts as zero elapsed time; and
  \<^verbatim>\<open>method_name\<close> is empty until initial metadata has been processed. The pointers
  start as null and the two closures as not initialised: \<open>Init\<close> and the first
  operation batches set them before anything reads them.
\<close>

definition CensusServerCallData_new :: "('n::semiring_1) CensusServerCallData" where
  "CensusServerCallData_new =
     \<lparr>m_gc = None, m_auth_context = None, m_context = CensusContext_default,
      m_method = [], m_path = grpc_empty_slice,
      m_recv_initial_metadata = None, m_initial_on_done_recv_initial_metadata = None,
      m_on_done_recv_initial_metadata = None,
      m_initial_on_done_recv_message = None, m_recv_message = None,
      m_recv_message_count = 0, m_sent_message_count = 0,
      m_on_done_recv_message = None,
      m_start_time = 0, m_elapsed_time = absl_ZeroDuration\<rparr>"

definition new_call :: "absl_Time \<Rightarrow> grpc_call_element_args \<Rightarrow> ('n::semiring_1) grpc_call_element" where
  "new_call now args =
     \<lparr>call_data = Some (snd (Init now args CensusServerCallData_new)),
      channel_data = Some CensusChannelData\<rparr>"

text \<open>
  What happens to a call between \<open>Init\<close> and \<open>Destroy\<close>: an operation batch passes
  through \<open>StartTransportStreamOpBatch\<close>, or the transport completes an intercepted
  operation and runs the closure that the filter put in its place. Before it runs
  \<^verbatim>\<open>on_done_recv_initial_metadata_\<close> the transport has filled the metadata batch that
  the operation pointed to, and before it runs \<^verbatim>\<open>on_done_recv_message_\<close> it has left
  the received message (or null) in the slot that the operation pointed to; these are
  the addresses that the call data kept when the operation passed through. Each of the
  two callbacks runs the chained closure as its last statement, so what that closure
  starts (an operation batch, say) is the next event.
\<close>

datatype event =
    Ev_StartTransportStreamOpBatch TransportStreamOpBatch absl_Time string
  | Ev_recv_initial_metadata_ready grpc_metadata_batch grpc_error
  | Ev_recv_message_ready "grpc_byte_stream option" grpc_error

definition transport_fills_initial_metadata ::
  "grpc_metadata_batch \<Rightarrow> 'n CensusServerCallData \<Rightarrow> 'n world \<Rightarrow> 'n world" where
  "transport_fills_initial_metadata b calld w =
     (case m_recv_initial_metadata calld of
        None \<Rightarrow> w
      | Some a \<Rightarrow> w\<lparr>metadata_batches := (metadata_batches w)(a \<mapsto> b)\<rparr>)"

definition transport_leaves_message ::
  "grpc_byte_stream option \<Rightarrow> 'n CensusServerCallData \<Rightarrow> 'n world \<Rightarrow> 'n world" where
  "transport_leaves_message m calld w =
     (case m_recv_message calld of
        None \<Rightarrow> w
      | Some slot \<Rightarrow> w\<lparr>byte_stream_slots := (byte_stream_slots w)(slot \<mapsto> m)\<rparr>)"

fun run_event ::
  "(int \<Rightarrow> string) \<Rightarrow> event \<Rightarrow> ('n::semiring_1) grpc_call_element \<times> 'n world
     \<Rightarrow> fault + ('n grpc_call_element \<times> 'n world)" where
  "run_event wire (Ev_StartTransportStreamOpBatch op now buf) (elem, w) =
     (case call_data elem of
        None \<Rightarrow> Inl Null_dereference
      | Some this \<Rightarrow>
          (case StartTransportStreamOpBatch wire now buf op this w of
             Inl f \<Rightarrow> Inl f
           | Inr (this1, w1) \<Rightarrow> Inr (elem\<lparr>call_data := Some this1\<rparr>, w1)))"
| "run_event wire (Ev_recv_initial_metadata_ready b error) (elem, w) =
     (case call_data elem of
        None \<Rightarrow> OnDoneRecvInitialMetadataCb elem error w
      | Some calld \<Rightarrow>
          OnDoneRecvInitialMetadataCb elem error (transport_fills_initial_metadata b calld w))"
| "run_event wire (Ev_recv_message_ready m error) (elem, w) =
     (case call_data elem of
        None \<Rightarrow> OnDoneRecvMessageCb elem error w
      | Some calld \<Rightarrow> OnDoneRecvMessageCb elem error (transport_leaves_message m calld w))"

fun run ::
  "(int \<Rightarrow> string) \<Rightarrow> event list \<Rightarrow> ('n::semiring_1) grpc_call_element \<times> 'n world
     \<Rightarrow> fault + ('n grpc_call_element \<times> 'n world)" where
  "run wire [] s = Inr s"
| "run wire (e # es) s =
     (case run_event wire e s of
        Inl f \<Rightarrow> Inl f
      | Inr s1 \<Rightarrow> run wire es s1)"

subsection \<open>Reading the effects and the events\<close>

fun closure_run_of :: "'n effect \<Rightarrow> (grpc_closure_ptr option \<times> grpc_error) list" where
  "closure_run_of (Eff_GRPC_CLOSURE_RUN c error) = [(c, error)]"
| "closure_run_of _ = []"

definition closure_runs :: "'n effect list \<Rightarrow> (grpc_closure_ptr option \<times> grpc_error) list" where
  "closure_runs es = concat (map closure_run_of es)"

fun stats_record_of :: "'n effect \<Rightarrow> ('n measurement list \<times> tag list) list" where
  "stats_record_of (Eff_stats_Record ms ts) = [(ms, ts)]"
| "stats_record_of _ = []"

definition stats_records :: "'n effect list \<Rightarrow> ('n measurement list \<times> tag list) list" where
  "stats_records es = concat (map stats_record_of es)"

fun next_op_of :: "'n effect \<Rightarrow> TransportStreamOpBatch list" where
  "next_op_of (Eff_grpc_call_next_op op) = [op]"
| "next_op_of _ = []"

definition next_ops :: "'n effect list \<Rightarrow> TransportStreamOpBatch list" where
  "next_ops es = concat (map next_op_of es)"

fun is_message_received :: "event \<Rightarrow> bool" where
  "is_message_received (Ev_recv_message_ready (Some m) error) = True"
| "is_message_received _ = False"

fun carries_send_message :: "event \<Rightarrow> bool" where
  "carries_send_message (Ev_StartTransportStreamOpBatch op now buf) = (send_message op \<noteq> None)"
| "carries_send_message _ = False"

fun carries_send_trailing_metadata :: "event \<Rightarrow> bool" where
  "carries_send_trailing_metadata (Ev_StartTransportStreamOpBatch op now buf) =
     (send_trailing_metadata op \<noteq> None)"
| "carries_send_trailing_metadata _ = False"

fun is_initial_metadata_success :: "event \<Rightarrow> bool" where
  "is_initial_metadata_success (Ev_recv_initial_metadata_ready b error) = (error = GRPC_ERROR_NONE)"
| "is_initial_metadata_success _ = False"

text \<open>
  The closure runs that a sequence of events asks for: each completion event asks for
  one run, with the error of the event, of the completion closure that the last
  operation batch before it brought for that receive operation. \<open>i\<close> and \<open>m\<close> are the
  closures brought so far for initial metadata and for messages.
\<close>

fun chained_callbacks ::
  "event list \<Rightarrow> grpc_closure_ptr option \<Rightarrow> grpc_closure_ptr option
     \<Rightarrow> (grpc_closure_ptr option \<times> grpc_error) list" where
  "chained_callbacks [] i m = []"
| "chained_callbacks (Ev_StartTransportStreamOpBatch op now buf # es) i m =
     chained_callbacks es
       (if recv_initial_metadata op = None then i else recv_initial_metadata_ready op)
       (if recv_message op = None then m else recv_message_ready op)"
| "chained_callbacks (Ev_recv_initial_metadata_ready b error # es) i m =
     (i, error) # chained_callbacks es i m"
| "chained_callbacks (Ev_recv_message_ready x error # es) i m =
     (m, error) # chained_callbacks es i m"

text \<open>
  The events that the transport and the stages above the filter can produce for a call.
  A completion event comes only after an operation batch with that receive operation
  has passed through (\<open>i\<close>: a batch with initial metadata and a batch pointer that is
  not null has passed; \<open>m\<close>: a batch with a message slot has passed; an
  initial-metadata event with an error needs nothing), and the trailing metadata of an
  operation batch is a metadata batch that is in the store (\<open>V\<close> holds of its address).
\<close>

fun follows_protocol :: "event list \<Rightarrow> bool \<Rightarrow> bool \<Rightarrow> (addr \<Rightarrow> bool) \<Rightarrow> bool" where
  "follows_protocol [] i m V = True"
| "follows_protocol (Ev_StartTransportStreamOpBatch op now buf # es) i m V =
     ((case send_trailing_metadata op of
         None \<Rightarrow> True
       | Some mb \<Rightarrow> (case batch mb of None \<Rightarrow> False | Some a \<Rightarrow> V a)) \<and>
      follows_protocol es
        (case recv_initial_metadata op of None \<Rightarrow> i | Some mb \<Rightarrow> batch mb \<noteq> None)
        (if recv_message op = None then m else True) V)"
| "follows_protocol (Ev_recv_initial_metadata_ready b error # es) i m V =
     ((if error = GRPC_ERROR_NONE then i else True) \<and> follows_protocol es i m V)"
| "follows_protocol (Ev_recv_message_ready x error # es) i m V =
     (m \<and> follows_protocol es i m V)"

definition in_store :: "'n world \<Rightarrow> addr \<Rightarrow> bool" where
  "in_store w a = (metadata_batches w a \<noteq> None)"

text \<open>
  The operation batch that leaves \<open>StartTransportStreamOpBatch\<close> for a batch \<open>op\<close> that
  came in: the completion closure of each receive operation that \<open>op\<close> carries is the
  filter's own.
\<close>

definition intercepted :: "TransportStreamOpBatch \<Rightarrow> TransportStreamOpBatch" where
  "intercepted op =
     op\<lparr>recv_initial_metadata_ready :=
          (if recv_initial_metadata op \<noteq> None then Some Addr_on_done_recv_initial_metadata
           else recv_initial_metadata_ready op),
        recv_message_ready :=
          (if recv_message op \<noteq> None then Some Addr_on_done_recv_message
           else recv_message_ready op)\<rparr>"

subsection \<open>A concrete call\<close>

text \<open>
  The inputs at which the theorems below are instantiated: a call that receives initial
  metadata with path \<^verbatim>\<open>/svc/Method\<close> and a ten-byte tracing blob, receives two messages
  and a final null read, sends one message and sends trailing metadata five milliseconds
  after its creation. The counters are natural numbers here.
\<close>

definition example_wire :: "int \<Rightarrow> string" where
  "example_wire t = ''elapsed-ns''"

definition oversize_wire :: "int \<Rightarrow> string" where
  "oversize_wire t = replicate 33 (CHR ''x'')"

definition example_StatusCodeToString :: "grpc_status_code \<Rightarrow> string" where
  "example_StatusCodeToString c = (if c = 0 then ''OK'' else ''UNKNOWN'')"

definition example_initial_metadata :: grpc_metadata_batch where
  "example_initial_metadata =
     \<lparr>idx_named_path = Some ''/svc/Method'',
      idx_named_grpc_trace_bin = Some ''0123456789'',
      idx_named_grpc_tags_bin = None,
      idx_named_grpc_server_stats_bin = None,
      unindexed = [(''user-agent'', ''grpc-c'')]\<rparr>"

definition example_trailing_metadata :: grpc_metadata_batch where
  "example_trailing_metadata =
     \<lparr>idx_named_path = None,
      idx_named_grpc_trace_bin = None,
      idx_named_grpc_tags_bin = None,
      idx_named_grpc_server_stats_bin = None,
      unindexed = []\<rparr>"

definition example_world :: "nat world" where
  "example_world =
     \<lparr>metadata_batches = [1 \<mapsto> example_initial_metadata, 2 \<mapsto> example_trailing_metadata],
      byte_stream_slots = [3 \<mapsto> Some ''hello''],
      effects = []\<rparr>"

definition no_op :: TransportStreamOpBatch where
  "no_op =
     \<lparr>recv_initial_metadata = None, recv_initial_metadata_ready = None,
      send_message = None, recv_message = None, recv_message_ready = None,
      send_trailing_metadata = None\<rparr>"

definition op_recv_initial_metadata :: TransportStreamOpBatch where
  "op_recv_initial_metadata =
     no_op\<lparr>recv_initial_metadata := Some (MetadataBatch (Some 1)),
           recv_initial_metadata_ready := Some (Closure_at 10)\<rparr>"

definition op_recv_message :: TransportStreamOpBatch where
  "op_recv_message =
     no_op\<lparr>recv_message := Some 3, recv_message_ready := Some (Closure_at 11)\<rparr>"

definition op_send_message :: TransportStreamOpBatch where
  "op_send_message = no_op\<lparr>send_message := Some ''reply''\<rparr>"

definition op_send_trailing_metadata :: TransportStreamOpBatch where
  "op_send_trailing_metadata =
     no_op\<lparr>send_trailing_metadata := Some (MetadataBatch (Some 2))\<rparr>"

definition example_args :: grpc_call_element_args where
  "example_args = \<lparr>call_stack = 7\<rparr>"

definition example_calld :: "nat CensusServerCallData" where
  "example_calld =
     (snd (Init 100 example_args CensusServerCallData_new))
       \<lparr>m_recv_initial_metadata := Some 1,
        m_initial_on_done_recv_initial_metadata := Some (Closure_at 10),
        m_recv_message := Some 3,
        m_initial_on_done_recv_message := Some (Closure_at 11)\<rparr>"

definition example_elem :: "nat grpc_call_element" where
  "example_elem = \<lparr>call_data = Some example_calld, channel_data = Some CensusChannelData\<rparr>"

definition example_events :: "event list" where
  "example_events =
     [Ev_StartTransportStreamOpBatch op_recv_initial_metadata 200 [],
      Ev_recv_initial_metadata_ready example_initial_metadata GRPC_ERROR_NONE,
      Ev_StartTransportStreamOpBatch op_recv_message 300 [],
      Ev_recv_message_ready (Some ''hello'') GRPC_ERROR_NONE,
      Ev_StartTransportStreamOpBatch op_recv_message 400 [],
      Ev_recv_message_ready (Some ''world'') GRPC_ERROR_NONE,
      Ev_StartTransportStreamOpBatch op_send_message 500 [],
      Ev_StartTransportStreamOpBatch op_recv_message 600 [],
      Ev_recv_message_ready None GRPC_ERROR_NONE,
      Ev_StartTransportStreamOpBatch op_send_trailing_metadata 5000100 []]"

definition failed_events :: "event list" where
  "failed_events =
     [Ev_StartTransportStreamOpBatch op_recv_initial_metadata 200 [],
      Ev_recv_initial_metadata_ready example_initial_metadata (GRPC_ERROR ''cancelled''),
      Ev_StartTransportStreamOpBatch op_send_message 300 []]"

definition example_final_info :: grpc_call_final_info where
  "example_final_info =
     \<lparr>final_status = 0, outgoing_data_bytes = 5, incoming_data_bytes = 10\<rparr>"

text \<open>
  The operation batches that a result of \<open>StartTransportStreamOpBatch\<close> has handed to
  \<^verbatim>\<open>grpc_call_next_op\<close>, when the function returned.
\<close>

definition forwarded_ops ::
  "fault + ('n CensusServerCallData \<times> 'n world) \<Rightarrow> TransportStreamOpBatch list option" where
  "forwarded_ops r =
     (case r of
        Inl f \<Rightarrow> None
      | Inr (this, w) \<Rightarrow> Some (next_ops (effects w)))"

text \<open>A store whose trailing metadata already holds a server-stats entry.\<close>

definition duplicate_world :: "nat world" where
  "duplicate_world =
     example_world\<lparr>metadata_batches := (metadata_batches example_world)
       (2 \<mapsto> example_trailing_metadata\<lparr>idx_named_grpc_server_stats_bin := Some ''old''\<rparr>)\<rparr>"

section \<open>Properties\<close>

subsection \<open>Auxiliary facts\<close>

lemma emit_simps [simp]:
  "effects (emit e w) = effects w @ [e]"
  "metadata_batches (emit e w) = metadata_batches w"
  "byte_stream_slots (emit e w) = byte_stream_slots w"
  by (simp_all add: emit_def)

lemma closure_runs_simps [simp]:
  "closure_runs [] = []"
  "closure_runs (xs @ ys) = closure_runs xs @ closure_runs ys"
  "closure_runs (e # xs) = closure_run_of e @ closure_runs xs"
  by (simp_all add: closure_runs_def)

lemma stats_records_simps [simp]:
  "stats_records [] = []"
  "stats_records (xs @ ys) = stats_records xs @ stats_records ys"
  "stats_records (e # xs) = stats_record_of e @ stats_records xs"
  by (simp_all add: stats_records_def)

lemma next_ops_simps [simp]:
  "next_ops [] = []"
  "next_ops (xs @ ys) = next_ops xs @ next_ops ys"
  "next_ops (e # xs) = next_op_of e @ next_ops xs"
  by (simp_all add: next_ops_def)

lemma GRPC_LOG_IF_ERROR_simps [simp]:
  "metadata_batches (GRPC_LOG_IF_ERROR what err w) = metadata_batches w"
  "byte_stream_slots (GRPC_LOG_IF_ERROR what err w) = byte_stream_slots w"
  "stats_records (effects (GRPC_LOG_IF_ERROR what err w)) = stats_records (effects w)"
  "closure_runs (effects (GRPC_LOG_IF_ERROR what err w)) = closure_runs (effects w)"
  "next_ops (effects (GRPC_LOG_IF_ERROR what err w)) = next_ops (effects w)"
  by (simp_all add: GRPC_LOG_IF_ERROR_def)

text \<open>What one pass through \<open>StartTransportStreamOpBatch\<close> changes when it returns.\<close>

lemma StartTransportStreamOpBatch_this:
  assumes "StartTransportStreamOpBatch wire now buf op this w = Inr (this', w')"
  shows "this' = this
     \<lparr>m_recv_initial_metadata :=
        (case recv_initial_metadata op of
           None \<Rightarrow> m_recv_initial_metadata this
         | Some mb \<Rightarrow> batch mb),
      m_initial_on_done_recv_initial_metadata :=
        (if recv_initial_metadata op = None then m_initial_on_done_recv_initial_metadata this
         else recv_initial_metadata_ready op),
      m_initial_on_done_recv_message :=
        (if recv_message op = None then m_initial_on_done_recv_message this
         else recv_message_ready op),
      m_recv_message :=
        (if recv_message op = None then m_recv_message this else recv_message op),
      m_sent_message_count :=
        (if send_message op = None then m_sent_message_count this
         else m_sent_message_count this + 1),
      m_elapsed_time :=
        (if send_trailing_metadata op = None then m_elapsed_time this
         else now - m_start_time this)\<rparr>"
  using assms
  by (auto simp add: StartTransportStreamOpBatch_def Let_def
      split: option.splits prod.splits if_splits)

lemma StartTransportStreamOpBatch_world:
  assumes "StartTransportStreamOpBatch wire now buf op this w = Inr (this', w')"
  shows "stats_records (effects w') = stats_records (effects w)"
    and "closure_runs (effects w') = closure_runs (effects w)"
    and "next_ops (effects w') = next_ops (effects w) @ [intercepted op]"
    and "byte_stream_slots w' = byte_stream_slots w"
  using assms
  by (auto simp add: StartTransportStreamOpBatch_def Let_def intercepted_def
      split: option.splits prod.splits if_splits)

lemma StartTransportStreamOpBatch_Inr:
  assumes "StartTransportStreamOpBatch wire now buf op this w = Inr (this', w')"
  shows "m_recv_message_count this' = m_recv_message_count this"
    and "m_sent_message_count this' =
           (if send_message op = None then m_sent_message_count this
            else m_sent_message_count this + 1)"
    and "m_method this' = m_method this"
    and "m_start_time this' = m_start_time this"
    and "m_elapsed_time this' =
           (if send_trailing_metadata op = None then m_elapsed_time this
            else now - m_start_time this)"
    and "stats_records (effects w') = stats_records (effects w)"
    and "closure_runs (effects w') = closure_runs (effects w)"
    and "next_ops (effects w') = next_ops (effects w) @ [intercepted op]"
    and "byte_stream_slots w' = byte_stream_slots w"
    and "m_initial_on_done_recv_message this' =
           (if recv_message op = None then m_initial_on_done_recv_message this
            else recv_message_ready op)"
    and "m_initial_on_done_recv_initial_metadata this' =
           (if recv_initial_metadata op = None then m_initial_on_done_recv_initial_metadata this
            else recv_initial_metadata_ready op)"
    and "m_recv_message this' =
           (if recv_message op = None then m_recv_message this else recv_message op)"
    and "m_recv_initial_metadata this' =
           (case recv_initial_metadata op of
              None \<Rightarrow> m_recv_initial_metadata this
            | Some mb \<Rightarrow> batch mb)"
  by (simp_all add: StartTransportStreamOpBatch_this [OF assms]
      StartTransportStreamOpBatch_world [OF assms] split: option.splits)

lemma StartTransportStreamOpBatch_metadata_batches:
  assumes "StartTransportStreamOpBatch wire now buf op this w = Inr (this', w')"
  shows "metadata_batches w' =
     (case send_trailing_metadata op of
        None \<Rightarrow> metadata_batches w
      | Some mb \<Rightarrow>
          (case ServerStatsSerialize wire (absl_ToInt64Nanoseconds (now - m_start_time this))
                  buf kMaxServerStatsLen of
             (len, buf1) \<Rightarrow>
               if len = 0 then metadata_batches w
               else (case batch mb of
                       None \<Rightarrow> metadata_batches w
                     | Some a \<Rightarrow>
                         (case metadata_batches w a of
                            None \<Rightarrow> metadata_batches w
                          | Some b \<Rightarrow> (metadata_batches w)
                              (a \<mapsto> fst (grpc_metadata_batch_add_tail_GRPC_SERVER_STATS_BIN b
                                           (take len buf1)))))))"
  using assms
  by (auto simp add: StartTransportStreamOpBatch_def Let_def grpc_slice_from_copied_buffer_def
      split: option.splits prod.splits if_splits)

lemma transport_simps [simp]:
  "effects (transport_leaves_message m calld w) = effects w"
  "effects (transport_fills_initial_metadata b calld w) = effects w"
  by (simp_all add: transport_leaves_message_def transport_fills_initial_metadata_def
      split: option.splits)

text \<open>What each callback changes when it returns.\<close>

lemma OnDoneRecvMessageCb_Inr:
  assumes "OnDoneRecvMessageCb elem error w = Inr (elem', w')"
    and "call_data elem = Some calld"
  shows "\<exists>slot stream. m_recv_message calld = Some slot \<and>
           byte_stream_slots w slot = Some stream \<and>
           call_data elem' =
             Some (calld\<lparr>m_recv_message_count :=
                     (if stream = None then m_recv_message_count calld
                      else m_recv_message_count calld + 1)\<rparr>)"
    and "stats_records (effects w') = stats_records (effects w)"
  using assms
  by (auto simp add: OnDoneRecvMessageCb_def Let_def split: option.splits if_splits)

lemma OnDoneRecvInitialMetadataCb_Inr:
  assumes "OnDoneRecvInitialMetadataCb elem error w = Inr (elem', w')"
    and "call_data elem = Some calld"
  shows "\<exists>calld'. call_data elem' = Some calld' \<and>
           m_recv_message_count calld' = m_recv_message_count calld \<and>
           m_sent_message_count calld' = m_sent_message_count calld \<and>
           m_elapsed_time calld' = m_elapsed_time calld \<and>
           m_start_time calld' = m_start_time calld \<and>
           (error \<noteq> GRPC_ERROR_NONE \<longrightarrow> m_method calld' = m_method calld) \<and>
           stats_records (effects w') = stats_records (effects w) @
             (if error = GRPC_ERROR_NONE
              then [([(RpcServerStartedCount, Int_literal 1)], [(kMethodTagKey, m_method calld')])]
              else [])"
  using assms
  by (auto simp add: OnDoneRecvInitialMetadataCb_def Let_def
      split: option.splits if_splits prod.splits)

text \<open>One event of a call, and then any number of them.\<close>

lemma run_event_Inr:
  assumes "run_event wire e (elem, w) = Inr (elem', w')"
    and "call_data elem = Some calld"
  shows "\<exists>calld'. call_data elem' = Some calld' \<and>
           m_recv_message_count calld' =
             (if is_message_received e then m_recv_message_count calld + 1
              else m_recv_message_count calld) \<and>
           m_sent_message_count calld' =
             (if carries_send_message e then m_sent_message_count calld + 1
              else m_sent_message_count calld) \<and>
           (\<not> carries_send_trailing_metadata e \<longrightarrow> m_elapsed_time calld' = m_elapsed_time calld) \<and>
           (\<not> is_initial_metadata_success e \<longrightarrow> m_method calld' = m_method calld) \<and>
           (\<exists>m. stats_records (effects w') = stats_records (effects w) @
             (if is_initial_metadata_success e
              then [([(RpcServerStartedCount, Int_literal 1)], [(kMethodTagKey, m)])]
              else []))"
proof (cases e)
  case (Ev_StartTransportStreamOpBatch op now buf)
  with assms obtain this' where
    r: "StartTransportStreamOpBatch wire now buf op calld w = Inr (this', w')"
    and e: "elem' = elem\<lparr>call_data := Some this'\<rparr>"
    by (auto split: sum.splits)
  show ?thesis
    using StartTransportStreamOpBatch_Inr [OF r] Ev_StartTransportStreamOpBatch e
    by simp
next
  case (Ev_recv_initial_metadata_ready b error)
  with assms have
    "OnDoneRecvInitialMetadataCb elem error (transport_fills_initial_metadata b calld w)
       = Inr (elem', w')"
    by simp
  from OnDoneRecvInitialMetadataCb_Inr [OF this assms(2)] Ev_recv_initial_metadata_ready
  show ?thesis by auto
next
  case (Ev_recv_message_ready m error)
  with assms have
    r: "OnDoneRecvMessageCb elem error (transport_leaves_message m calld w) = Inr (elem', w')"
    by simp
  from OnDoneRecvMessageCb_Inr(1) [OF r assms(2)] obtain slot stream where
    s: "m_recv_message calld = Some slot"
      "byte_stream_slots (transport_leaves_message m calld w) slot = Some stream"
      "call_data elem' =
             Some (calld\<lparr>m_recv_message_count :=
                     (if stream = None then m_recv_message_count calld
                      else m_recv_message_count calld + 1)\<rparr>)"
    by blast
  from s(1,2) have "stream = m"
    by (simp add: transport_leaves_message_def)
  with s(3) OnDoneRecvMessageCb_Inr(2) [OF r assms(2)] Ev_recv_message_ready
  show ?thesis by (cases m) simp_all
qed

lemma run_Inr:
  assumes "run wire evs (elem, w) = Inr (elem', w')"
    and "call_data elem = Some calld"
  shows "\<exists>calld'. call_data elem' = Some calld' \<and>
           m_recv_message_count calld' =
             m_recv_message_count calld + of_nat (length (filter is_message_received evs)) \<and>
           m_sent_message_count calld' =
             m_sent_message_count calld + of_nat (length (filter carries_send_message evs)) \<and>
           (filter carries_send_trailing_metadata evs = [] \<longrightarrow>
              m_elapsed_time calld' = m_elapsed_time calld) \<and>
           (filter is_initial_metadata_success evs = [] \<longrightarrow>
              m_method calld' = m_method calld) \<and>
           (\<exists>ms. length ms = length (filter is_initial_metadata_success evs) \<and>
              stats_records (effects w') = stats_records (effects w) @
                map (\<lambda>m. ([(RpcServerStartedCount, Int_literal 1)], [(kMethodTagKey, m)])) ms)"
  using assms
proof (induction evs arbitrary: elem w calld)
  case Nil
  then show ?case by simp
next
  case (Cons e evs)
  from Cons.prems(1) obtain elem1 w1 where
    step: "run_event wire e (elem, w) = Inr (elem1, w1)"
    and rest: "run wire evs (elem1, w1) = Inr (elem', w')"
    by (auto split: sum.splits)
  from run_event_Inr [OF step Cons.prems(2)] obtain calld1 m where
    c1: "call_data elem1 = Some calld1"
    and r1: "m_recv_message_count calld1 =
             (if is_message_received e then m_recv_message_count calld + 1
              else m_recv_message_count calld)"
    and s1: "m_sent_message_count calld1 =
             (if carries_send_message e then m_sent_message_count calld + 1
              else m_sent_message_count calld)"
    and t1: "\<not> carries_send_trailing_metadata e \<longrightarrow> m_elapsed_time calld1 = m_elapsed_time calld"
    and m1: "\<not> is_initial_metadata_success e \<longrightarrow> m_method calld1 = m_method calld"
    and e1: "stats_records (effects w1) = stats_records (effects w) @
             (if is_initial_metadata_success e
              then [([(RpcServerStartedCount, Int_literal 1)], [(kMethodTagKey, m)])]
              else [])"
    by blast
  from Cons.IH [OF rest c1] obtain calld' ms where
    c2: "call_data elem' = Some calld'"
    and r2: "m_recv_message_count calld' =
             m_recv_message_count calld1 + of_nat (length (filter is_message_received evs))"
    and s2: "m_sent_message_count calld' =
             m_sent_message_count calld1 + of_nat (length (filter carries_send_message evs))"
    and t2: "filter carries_send_trailing_metadata evs = [] \<longrightarrow>
              m_elapsed_time calld' = m_elapsed_time calld1"
    and m2: "filter is_initial_metadata_success evs = [] \<longrightarrow>
              m_method calld' = m_method calld1"
    and l2: "length ms = length (filter is_initial_metadata_success evs)"
    and e2: "stats_records (effects w') = stats_records (effects w1) @
                map (\<lambda>m. ([(RpcServerStartedCount, Int_literal 1)], [(kMethodTagKey, m)])) ms"
    by blast
  have r: "m_recv_message_count calld' =
      m_recv_message_count calld + of_nat (length (filter is_message_received (e # evs)))"
    using r1 r2 by (simp add: ac_simps)
  have s: "m_sent_message_count calld' =
      m_sent_message_count calld + of_nat (length (filter carries_send_message (e # evs)))"
    using s1 s2 by (simp add: ac_simps)
  have t: "filter carries_send_trailing_metadata (e # evs) = [] \<longrightarrow>
      m_elapsed_time calld' = m_elapsed_time calld"
    using t1 t2 by (simp split: if_splits)
  have mm: "filter is_initial_metadata_success (e # evs) = [] \<longrightarrow>
      m_method calld' = m_method calld"
    using m1 m2 by (simp split: if_splits)
  have ee: "\<exists>ms. length ms = length (filter is_initial_metadata_success (e # evs)) \<and>
      stats_records (effects w') = stats_records (effects w) @
        map (\<lambda>m. ([(RpcServerStartedCount, Int_literal 1)], [(kMethodTagKey, m)])) ms"
  proof (cases "is_initial_metadata_success e")
    case True
    with e1 e2 l2 show ?thesis
      by (intro exI [of _ "m # ms"]) simp
  next
    case False
    with e1 e2 l2 show ?thesis
      by (intro exI [of _ ms]) simp
  qed
  from c2 r s t mm ee show ?case by blast
qed

text \<open>The closures that the callbacks run, and those that the call data keeps.\<close>

lemma OnDoneRecvMessageCb_closures:
  assumes "OnDoneRecvMessageCb elem error w = Inr (elem', w')"
    and "call_data elem = Some calld"
  shows "\<exists>calld'. call_data elem' = Some calld' \<and>
           m_initial_on_done_recv_message calld' = m_initial_on_done_recv_message calld \<and>
           m_initial_on_done_recv_initial_metadata calld' =
             m_initial_on_done_recv_initial_metadata calld \<and>
           closure_runs (effects w') =
             closure_runs (effects w) @ [(m_initial_on_done_recv_message calld, error)]"
  using assms
  by (auto simp add: OnDoneRecvMessageCb_def Let_def GRPC_ERROR_REF_def
      split: option.splits if_splits)

lemma OnDoneRecvInitialMetadataCb_closures:
  assumes "OnDoneRecvInitialMetadataCb elem error w = Inr (elem', w')"
    and "call_data elem = Some calld"
  shows "\<exists>calld'. call_data elem' = Some calld' \<and>
           m_initial_on_done_recv_message calld' = m_initial_on_done_recv_message calld \<and>
           m_initial_on_done_recv_initial_metadata calld' =
             m_initial_on_done_recv_initial_metadata calld \<and>
           closure_runs (effects w') =
             closure_runs (effects w) @
               [(m_initial_on_done_recv_initial_metadata calld, error)]"
  using assms
  by (auto simp add: OnDoneRecvInitialMetadataCb_def Let_def GRPC_ERROR_REF_def
      split: option.splits if_splits prod.splits)

lemma run_closure_runs:
  assumes "run wire evs (elem, w) = Inr (elem', w')"
    and "call_data elem = Some calld"
  shows "closure_runs (effects w') =
           closure_runs (effects w) @
             chained_callbacks evs (m_initial_on_done_recv_initial_metadata calld)
               (m_initial_on_done_recv_message calld)"
  using assms
proof (induction evs arbitrary: elem w calld)
  case Nil
  then show ?case by simp
next
  case (Cons e evs)
  from Cons.prems(1) obtain elem1 w1 where
    step: "run_event wire e (elem, w) = Inr (elem1, w1)"
    and rest: "run wire evs (elem1, w1) = Inr (elem', w')"
    by (auto split: sum.splits)
  show ?case
  proof (cases e)
    case (Ev_StartTransportStreamOpBatch op now buf)
    with step Cons.prems(2) obtain this1 where
      r: "StartTransportStreamOpBatch wire now buf op calld w = Inr (this1, w1)"
      and c1: "call_data elem1 = Some this1"
      by (auto split: sum.splits)
    from Cons.IH [OF rest c1] StartTransportStreamOpBatch_Inr(7,10,11) [OF r]
      Ev_StartTransportStreamOpBatch
    show ?thesis by simp
  next
    case (Ev_recv_initial_metadata_ready b error)
    with step Cons.prems(2) have
      "OnDoneRecvInitialMetadataCb elem error (transport_fills_initial_metadata b calld w)
         = Inr (elem1, w1)"
      by simp
    from OnDoneRecvInitialMetadataCb_closures [OF this Cons.prems(2)] obtain calld1 where
      c1: "call_data elem1 = Some calld1"
      and k: "m_initial_on_done_recv_message calld1 = m_initial_on_done_recv_message calld"
        "m_initial_on_done_recv_initial_metadata calld1 =
           m_initial_on_done_recv_initial_metadata calld"
      and q: "closure_runs (effects w1) =
           closure_runs (effects w) @ [(m_initial_on_done_recv_initial_metadata calld, error)]"
      by auto
    from Cons.IH [OF rest c1] k q Ev_recv_initial_metadata_ready
    show ?thesis by simp
  next
    case (Ev_recv_message_ready x error)
    with step Cons.prems(2) have
      "OnDoneRecvMessageCb elem error (transport_leaves_message x calld w) = Inr (elem1, w1)"
      by simp
    from OnDoneRecvMessageCb_closures [OF this Cons.prems(2)] obtain calld1 where
      c1: "call_data elem1 = Some calld1"
      and k: "m_initial_on_done_recv_message calld1 = m_initial_on_done_recv_message calld"
        "m_initial_on_done_recv_initial_metadata calld1 =
           m_initial_on_done_recv_initial_metadata calld"
      and q: "closure_runs (effects w1) =
           closure_runs (effects w) @ [(m_initial_on_done_recv_message calld, error)]"
      by auto
    from Cons.IH [OF rest c1] k q Ev_recv_message_ready
    show ?thesis by simp
  qed
qed

text \<open>A call at its creation.\<close>

lemma new_call_call_data:
  "call_data (new_call now args) = Some (snd (Init now args CensusServerCallData_new))"
  by (simp add: new_call_def)

text \<open>When the three functions return, and what they keep.\<close>

lemma StartTransportStreamOpBatch_returns:
  assumes "case send_trailing_metadata op of
       None \<Rightarrow> True
     | Some mb \<Rightarrow> (\<exists>a b. batch mb = Some a \<and> metadata_batches w a = Some b)"
  shows "\<exists>this' w'. StartTransportStreamOpBatch wire now buf op this w = Inr (this', w')"
  using assms
  by (auto simp add: StartTransportStreamOpBatch_def Let_def
      split: option.splits prod.splits)

lemma StartTransportStreamOpBatch_in_store:
  assumes "StartTransportStreamOpBatch wire now buf op this w = Inr (this', w')"
    and "in_store w a"
  shows "in_store w' a"
  using assms(2)
  by (auto simp add: StartTransportStreamOpBatch_metadata_batches [OF assms(1)] in_store_def
      split: option.splits prod.splits)

lemma OnDoneRecvMessageCb_returns:
  assumes "call_data elem = Some calld" and "channel_data elem = Some channeld"
    and "m_recv_message calld = Some slot" and "byte_stream_slots w slot = Some stream"
  shows "\<exists>elem' calld' w'. OnDoneRecvMessageCb elem error w = Inr (elem', w') \<and>
           call_data elem' = Some calld' \<and> channel_data elem' = channel_data elem \<and>
           m_recv_initial_metadata calld' = m_recv_initial_metadata calld \<and>
           m_recv_message calld' = m_recv_message calld \<and>
           metadata_batches w' = metadata_batches w"
  using assms
  by (simp add: OnDoneRecvMessageCb_def Let_def)

lemma OnDoneRecvInitialMetadataCb_returns:
  assumes "call_data elem = Some calld"
    and "error = GRPC_ERROR_NONE \<longrightarrow>
           (\<exists>a b. m_recv_initial_metadata calld = Some a \<and> metadata_batches w a = Some b)"
  shows "\<exists>elem' calld' w'. OnDoneRecvInitialMetadataCb elem error w = Inr (elem', w') \<and>
           call_data elem' = Some calld' \<and> channel_data elem' = channel_data elem \<and>
           m_recv_initial_metadata calld' = m_recv_initial_metadata calld \<and>
           m_recv_message calld' = m_recv_message calld \<and>
           (\<forall>a. in_store w a \<longrightarrow> in_store w' a)"
proof (cases "error = GRPC_ERROR_NONE")
  case True
  with assms(2) obtain a b where
    "m_recv_initial_metadata calld = Some a" "metadata_batches w a = Some b"
    by blast
  with assms(1) True show ?thesis
    by (simp add: OnDoneRecvInitialMetadataCb_def Let_def in_store_def split: prod.splits)
next
  case False
  with assms(1) show ?thesis
    by (simp add: OnDoneRecvInitialMetadataCb_def in_store_def)
qed

lemma run_returns:
  assumes "follows_protocol evs i m V"
    and "i = (m_recv_initial_metadata calld \<noteq> None)"
    and "m = (m_recv_message calld \<noteq> None)"
    and "call_data elem = Some calld" and "channel_data elem = Some channeld"
    and "\<forall>a. V a \<longrightarrow> in_store w a"
  shows "\<exists>elem' w'. run wire evs (elem, w) = Inr (elem', w')"
  using assms
proof (induction evs arbitrary: elem w calld i m)
  case Nil
  then show ?case by simp
next
  case (Cons e evs)
  note c = \<open>call_data elem = Some calld\<close> and d = \<open>channel_data elem = Some channeld\<close>
    and v = \<open>\<forall>a. V a \<longrightarrow> in_store w a\<close>
    and i = \<open>i = (m_recv_initial_metadata calld \<noteq> None)\<close>
    and m = \<open>m = (m_recv_message calld \<noteq> None)\<close>
  show ?case
  proof (cases e)
    case (Ev_StartTransportStreamOpBatch op now buf)
    with Cons.prems(1) have
      "(case send_trailing_metadata op of
          None \<Rightarrow> True
        | Some mb \<Rightarrow> (case batch mb of None \<Rightarrow> False | Some a \<Rightarrow> V a)) \<and>
       follows_protocol evs
        (case recv_initial_metadata op of None \<Rightarrow> i | Some mb \<Rightarrow> batch mb \<noteq> None)
        (if recv_message op = None then m else True) V"
      by simp
    then have
      t: "case send_trailing_metadata op of
            None \<Rightarrow> True
          | Some mb \<Rightarrow> (case batch mb of None \<Rightarrow> False | Some a \<Rightarrow> V a)"
      and p: "follows_protocol evs
        (case recv_initial_metadata op of None \<Rightarrow> i | Some mb \<Rightarrow> batch mb \<noteq> None)
        (if recv_message op = None then m else True) V"
      by simp_all
    from t v have
      "case send_trailing_metadata op of
         None \<Rightarrow> True
       | Some mb \<Rightarrow> (\<exists>a b. batch mb = Some a \<and> metadata_batches w a = Some b)"
      by (auto simp add: in_store_def split: option.splits)
    from StartTransportStreamOpBatch_returns [OF this] obtain this1 w1 where
      r: "StartTransportStreamOpBatch wire now buf op calld w = Inr (this1, w1)"
      by blast
    have i1: "(case recv_initial_metadata op of None \<Rightarrow> i | Some mb \<Rightarrow> batch mb \<noteq> None) =
        (m_recv_initial_metadata this1 \<noteq> None)"
      by (simp add: StartTransportStreamOpBatch_Inr(13) [OF r] i split: option.splits)
    have m1: "(if recv_message op = None then m else True) = (m_recv_message this1 \<noteq> None)"
      by (simp add: StartTransportStreamOpBatch_Inr(12) [OF r] m)
    have v1: "\<forall>a. V a \<longrightarrow> in_store w1 a"
      using v StartTransportStreamOpBatch_in_store [OF r] by blast
    have c1: "call_data (elem\<lparr>call_data := Some this1\<rparr>) = Some this1"
      and d1: "channel_data (elem\<lparr>call_data := Some this1\<rparr>) = Some channeld"
      using d by simp_all
    from Cons.IH [OF p i1 m1 c1 d1 v1] r c Ev_StartTransportStreamOpBatch
    show ?thesis by simp
  next
    case (Ev_recv_initial_metadata_ready b error)
    let ?w = "transport_fills_initial_metadata b calld w"
    from Cons.prems(1) Ev_recv_initial_metadata_ready have
      "(if error = GRPC_ERROR_NONE then i else True) \<and> follows_protocol evs i m V"
      by simp
    then have g: "if error = GRPC_ERROR_NONE then i else True"
      and p: "follows_protocol evs i m V"
      by simp_all
    from g i have
      "error = GRPC_ERROR_NONE \<longrightarrow>
         (\<exists>a b. m_recv_initial_metadata calld = Some a \<and> metadata_batches ?w a = Some b)"
      by (auto simp add: transport_fills_initial_metadata_def split: if_splits)
    from OnDoneRecvInitialMetadataCb_returns [OF c this] obtain elem1 calld1 w1 where
      r: "OnDoneRecvInitialMetadataCb elem error ?w = Inr (elem1, w1)"
      and c1: "call_data elem1 = Some calld1"
      and d1: "channel_data elem1 = channel_data elem"
      and k: "m_recv_initial_metadata calld1 = m_recv_initial_metadata calld"
        "m_recv_message calld1 = m_recv_message calld"
      and s: "\<forall>a. in_store ?w a \<longrightarrow> in_store w1 a"
      by blast
    have "\<forall>a. in_store w a \<longrightarrow> in_store ?w a"
      by (simp add: transport_fills_initial_metadata_def in_store_def split: option.splits)
    with s v have v1: "\<forall>a. V a \<longrightarrow> in_store w1 a"
      by blast
    from i k have i1: "i = (m_recv_initial_metadata calld1 \<noteq> None)" by simp
    from m k have m1: "m = (m_recv_message calld1 \<noteq> None)" by simp
    from d d1 have d2: "channel_data elem1 = Some channeld" by simp
    from Cons.IH [OF p i1 m1 c1 d2 v1] r c Ev_recv_initial_metadata_ready
    show ?thesis by simp
  next
    case (Ev_recv_message_ready x error)
    let ?w = "transport_leaves_message x calld w"
    from Cons.prems(1) have "m \<and> follows_protocol evs i m V"
      unfolding Ev_recv_message_ready follows_protocol.simps .
    then have g: m and p: "follows_protocol evs i m V"
      by blast+
    from g m obtain slot where sl: "m_recv_message calld = Some slot"
      by auto
    from sl have s: "byte_stream_slots ?w slot = Some x"
      and b: "metadata_batches ?w = metadata_batches w"
      by (simp_all add: transport_leaves_message_def)
    from OnDoneRecvMessageCb_returns [OF c d sl s] obtain elem1 calld1 w1 where
      r: "OnDoneRecvMessageCb elem error ?w = Inr (elem1, w1)"
      and c1: "call_data elem1 = Some calld1"
      and d1: "channel_data elem1 = channel_data elem"
      and k: "m_recv_initial_metadata calld1 = m_recv_initial_metadata calld"
        "m_recv_message calld1 = m_recv_message calld"
      and s1: "metadata_batches w1 = metadata_batches ?w"
      by blast
    from s1 b v have v1: "\<forall>a. V a \<longrightarrow> in_store w1 a"
      by (simp add: in_store_def)
    from i k have i1: "i = (m_recv_initial_metadata calld1 \<noteq> None)" by simp
    from m k have m1: "m = (m_recv_message calld1 \<noteq> None)" by simp
    from d d1 have d2: "channel_data elem1 = Some channeld" by simp
    from Cons.IH [OF p i1 m1 c1 d2 v1] r c Ev_recv_message_ready
    show ?thesis by simp
  qed
qed

lemma new_call_returns:
  assumes "follows_protocol evs False False (in_store w)"
  shows "\<exists>elem' w'. run wire evs (new_call now args, w) = Inr (elem', w')"
proof -
  have i: "False = (m_recv_initial_metadata (snd (Init now args CensusServerCallData_new)) \<noteq> None)"
    and m: "False = (m_recv_message (snd (Init now args CensusServerCallData_new)) \<noteq> None)"
    by (simp_all add: Init_def CensusServerCallData_new_def)
  have d: "channel_data (new_call now args) = Some CensusChannelData"
    by (simp add: new_call_def)
  have v: "\<forall>a. in_store w a \<longrightarrow> in_store w a"
    by simp
  from run_returns [OF assms i m new_call_call_data d v] show ?thesis .
qed

lemma Init_new_simps [simp]:
  "m_recv_message_count (snd (Init now args CensusServerCallData_new)) = 0"
  "m_sent_message_count (snd (Init now args CensusServerCallData_new)) = 0"
  "m_elapsed_time (snd (Init now args CensusServerCallData_new)) = absl_ZeroDuration"
  "m_method (snd (Init now args CensusServerCallData_new)) = []"
  "m_start_time (snd (Init now args CensusServerCallData_new)) = now"
  "m_initial_on_done_recv_initial_metadata (snd (Init now args CensusServerCallData_new)) = None"
  "m_initial_on_done_recv_message (snd (Init now args CensusServerCallData_new)) = None"
  by (simp_all add: Init_def CensusServerCallData_new_def)

text \<open>What \<open>Destroy\<close> records.\<close>

lemma Destroy_stats_records:
  "stats_records (effects (Destroy StatusCodeToString final_info this w)) =
     stats_records (effects w) @
       [([(RpcServerErrorCount,
             Int_literal (if final_status final_info = GRPC_STATUS_OK then 0 else 1)),
          (RpcServerRequestBytes, Double (static_cast_double (GetOutgoingDataSize final_info))),
          (RpcServerResponseBytes, Double (static_cast_double (GetIncomingDataSize final_info))),
          (RpcServerServerElapsedTime, Double (absl_ToDoubleMilliseconds (m_elapsed_time this))),
          (RpcServerRequestCount, Counter (m_sent_message_count this)),
          (RpcServerFinishedCount, Int_literal 1),
          (RpcServerResponseCount, Counter (m_recv_message_count this))],
         [(kMethodTagKey, m_method this),
          (kStatusTagKey, StatusCodeToString (final_status final_info))])]"
  by (simp add: Destroy_def Let_def)

text \<open>The definitions that a concrete instance unfolds.\<close>

lemmas example_defs =
  example_wire_def example_initial_metadata_def example_trailing_metadata_def
  example_world_def no_op_def op_recv_initial_metadata_def op_recv_message_def
  op_send_message_def op_send_trailing_metadata_def example_args_def example_calld_def
  example_elem_def example_final_info_def Init_def CensusServerCallData_new_def

text \<open>The concrete call runs to its end.\<close>

lemmas run_defs =
  StartTransportStreamOpBatch_def OnDoneRecvInitialMetadataCb_def OnDoneRecvMessageCb_def
  FilterInitialMetadata_def ServerStatsSerialize_def
  grpc_metadata_batch_add_tail_GRPC_SERVER_STATS_BIN_def
  grpc_metadata_batch_remove_grpc_trace_bin_def grpc_metadata_batch_remove_grpc_tags_bin_def
  transport_fills_initial_metadata_def transport_leaves_message_def
  GRPC_LOG_IF_ERROR_def emit_def new_call_def Let_def
  grpc_empty_slice_def GRPC_SLICE_LENGTH_def GRPC_SLICE_IS_EMPTY_def GRPC_SLICE_START_PTR_def
  grpc_slice_ref_internal_def grpc_slice_from_copied_buffer_def string_view_def
  GRPC_ERROR_REF_def absl_ToInt64Nanoseconds_def absl_ZeroDuration_def kMaxServerStatsLen_def

lemma example_run_returns:
  "\<exists>elem' w'. run example_wire example_events (new_call 100 example_args, example_world)
      = Inr (elem', w')"
  by (simp add: example_events_def example_defs run_defs)

lemma failed_run_returns:
  "\<exists>elem' w'. run example_wire failed_events (new_call 100 example_args, example_world)
      = Inr (elem', w')"
  by (simp add: failed_events_def example_defs run_defs)

subsection \<open>The chained callbacks\<close>

text \<open>
  C1: for every intercepted completion event (initial metadata received, message
  received) the substituted callback runs the original chained callback exactly once,
  with the error it was given, on the error path and on the success path alike.

  The first three parts are the two callbacks: they return, and the closure runs among
  the effects are then those from before followed by one run of the closure that the
  call data keeps for the event, with the error of the event. (The message callback returns when
  the element has its call data and channel data and the slot it reads is there; the
  initial-metadata callback returns on every error, and on success when the batch it
  reads is there.) The fourth part says that the closure kept is the one the operation
  batch carried when it was intercepted, and that passing a batch through runs no
  closure. The fifth part is a call that goes through any events: the closures run are
  those that the completion events ask for, one for each event and in their order, each
  the closure that the last batch with that receive operation brought, each with the
  error of its event. The last part is a call from its creation on, whose events come as
  the transport produces them: the call goes through all of them, with these closure
  runs.
\<close>

theorem C1_chained_callback_run_once:
  "(call_data elem = Some calld \<and> channel_data elem = Some channeld \<and>
    m_recv_message calld = Some slot \<and> byte_stream_slots w slot = Some stream \<longrightarrow>
      (\<exists>elem' w'. OnDoneRecvMessageCb elem error w = Inr (elem', w') \<and>
         closure_runs (effects w') =
           closure_runs (effects w) @ [(m_initial_on_done_recv_message calld, error)]))
   \<and>
   (call_data elem = Some calld \<and> error \<noteq> GRPC_ERROR_NONE \<longrightarrow>
      (\<exists>elem' w'. OnDoneRecvInitialMetadataCb elem error w = Inr (elem', w') \<and>
         closure_runs (effects w') =
           closure_runs (effects w) @ [(m_initial_on_done_recv_initial_metadata calld, error)]))
   \<and>
   (call_data elem = Some calld \<and> m_recv_initial_metadata calld = Some a \<and>
    metadata_batches w a = Some b \<longrightarrow>
      (\<exists>elem' w'. OnDoneRecvInitialMetadataCb elem error w = Inr (elem', w') \<and>
         closure_runs (effects w') =
           closure_runs (effects w) @ [(m_initial_on_done_recv_initial_metadata calld, error)]))
   \<and>
   (StartTransportStreamOpBatch wire now buf op this w = Inr (this', w0) \<longrightarrow>
      closure_runs (effects w0) = closure_runs (effects w) \<and>
      m_initial_on_done_recv_message this' =
        (if recv_message op = None then m_initial_on_done_recv_message this
         else recv_message_ready op) \<and>
      m_initial_on_done_recv_initial_metadata this' =
        (if recv_initial_metadata op = None then m_initial_on_done_recv_initial_metadata this
         else recv_initial_metadata_ready op))
   \<and>
   (run wire evs (elem, w) = Inr (elem1, w1) \<and> call_data elem = Some calld \<longrightarrow>
      closure_runs (effects w1) =
        closure_runs (effects w) @
          chained_callbacks evs (m_initial_on_done_recv_initial_metadata calld)
            (m_initial_on_done_recv_message calld))
   \<and>
   (follows_protocol evs False False (in_store w) \<longrightarrow>
      (\<exists>elem2 w2. run wire evs (new_call t0 args, w) = Inr (elem2, w2) \<and>
         closure_runs (effects w2) =
           closure_runs (effects w) @ chained_callbacks evs None None))"
proof (intro conjI impI)
  assume "call_data elem = Some calld \<and> channel_data elem = Some channeld \<and>
    m_recv_message calld = Some slot \<and> byte_stream_slots w slot = Some stream"
  then show "\<exists>elem' w'. OnDoneRecvMessageCb elem error w = Inr (elem', w') \<and>
         closure_runs (effects w') =
           closure_runs (effects w) @ [(m_initial_on_done_recv_message calld, error)]"
    by (simp add: OnDoneRecvMessageCb_def Let_def GRPC_ERROR_REF_def)
next
  assume "call_data elem = Some calld \<and> error \<noteq> GRPC_ERROR_NONE"
  then show "\<exists>elem' w'. OnDoneRecvInitialMetadataCb elem error w = Inr (elem', w') \<and>
         closure_runs (effects w') =
           closure_runs (effects w) @ [(m_initial_on_done_recv_initial_metadata calld, error)]"
    by (simp add: OnDoneRecvInitialMetadataCb_def GRPC_ERROR_REF_def)
next
  assume "call_data elem = Some calld \<and> m_recv_initial_metadata calld = Some a \<and>
    metadata_batches w a = Some b"
  then show "\<exists>elem' w'. OnDoneRecvInitialMetadataCb elem error w = Inr (elem', w') \<and>
         closure_runs (effects w') =
           closure_runs (effects w) @ [(m_initial_on_done_recv_initial_metadata calld, error)]"
    by (simp add: OnDoneRecvInitialMetadataCb_def Let_def GRPC_ERROR_REF_def
        split: prod.splits)
next
  assume r: "StartTransportStreamOpBatch wire now buf op this w = Inr (this', w0)"
  show "closure_runs (effects w0) = closure_runs (effects w)"
    by (rule StartTransportStreamOpBatch_Inr(7) [OF r])
  show "m_initial_on_done_recv_message this' =
        (if recv_message op = None then m_initial_on_done_recv_message this
         else recv_message_ready op)"
    by (rule StartTransportStreamOpBatch_Inr(10) [OF r])
  show "m_initial_on_done_recv_initial_metadata this' =
        (if recv_initial_metadata op = None then m_initial_on_done_recv_initial_metadata this
         else recv_initial_metadata_ready op)"
    by (rule StartTransportStreamOpBatch_Inr(11) [OF r])
next
  assume "run wire evs (elem, w) = Inr (elem1, w1) \<and> call_data elem = Some calld"
  then have r: "run wire evs (elem, w) = Inr (elem1, w1)" and c: "call_data elem = Some calld"
    by simp_all
  show "closure_runs (effects w1) =
        closure_runs (effects w) @
          chained_callbacks evs (m_initial_on_done_recv_initial_metadata calld)
            (m_initial_on_done_recv_message calld)"
    by (rule run_closure_runs [OF r c])
next
  assume "follows_protocol evs False False (in_store w)"
  from new_call_returns [OF this] obtain elem2 w2 where
    r: "run wire evs (new_call t0 args, w) = Inr (elem2, w2)"
    by blast
  from run_closure_runs [OF r new_call_call_data] r
  show "\<exists>elem2 w2. run wire evs (new_call t0 args, w) = Inr (elem2, w2) \<and>
         closure_runs (effects w2) =
           closure_runs (effects w) @ chained_callbacks evs None None"
    by simp
qed

theorem C1_chained_callback_run_once_witness:
  "(\<exists>elem' w'. OnDoneRecvMessageCb example_elem (GRPC_ERROR ''cancelled'') example_world
        = Inr (elem', w') \<and>
      closure_runs (effects w') = [(Some (Closure_at 11), GRPC_ERROR ''cancelled'')])
   \<and>
   (\<exists>elem' w'. OnDoneRecvInitialMetadataCb example_elem (GRPC_ERROR ''cancelled'') example_world
        = Inr (elem', w') \<and>
      closure_runs (effects w') = [(Some (Closure_at 10), GRPC_ERROR ''cancelled'')])
   \<and>
   (\<exists>elem' w'. OnDoneRecvInitialMetadataCb example_elem GRPC_ERROR_NONE example_world
        = Inr (elem', w') \<and>
      closure_runs (effects w') = [(Some (Closure_at 10), GRPC_ERROR_NONE)])
   \<and>
   (\<exists>this' w'. StartTransportStreamOpBatch example_wire 300 [] op_recv_message
        (snd (Init 100 example_args CensusServerCallData_new)) example_world = Inr (this', w') \<and>
      closure_runs (effects w') = [] \<and>
      m_initial_on_done_recv_message this' = Some (Closure_at 11))
   \<and>
   (\<exists>elem1 w1. run example_wire example_events (new_call 100 example_args, example_world)
        = Inr (elem1, w1) \<and>
      closure_runs (effects w1) =
        [(Some (Closure_at 10), GRPC_ERROR_NONE), (Some (Closure_at 11), GRPC_ERROR_NONE),
         (Some (Closure_at 11), GRPC_ERROR_NONE), (Some (Closure_at 11), GRPC_ERROR_NONE)])"
proof -
  have h1: "call_data example_elem = Some example_calld \<and>
      channel_data example_elem = Some CensusChannelData \<and>
      m_recv_message example_calld = Some 3 \<and>
      byte_stream_slots example_world 3 = Some (Some ''hello'')"
    by (simp add: example_defs)
  have h2: "call_data example_elem = Some example_calld \<and>
      GRPC_ERROR ''cancelled'' \<noteq> GRPC_ERROR_NONE"
    by (simp add: example_defs)
  have h3: "call_data example_elem = Some example_calld \<and>
      m_recv_initial_metadata example_calld = Some 1 \<and>
      metadata_batches example_world 1 = Some example_initial_metadata"
    by (simp add: example_defs)
  have e4: "\<exists>this' w'. StartTransportStreamOpBatch example_wire 300 [] op_recv_message
        (snd (Init 100 example_args CensusServerCallData_new)) (example_world :: nat world)
          = Inr (this', w')"
    by (simp add: StartTransportStreamOpBatch_def example_defs)
  then obtain this' w' where h4: "StartTransportStreamOpBatch example_wire 300 [] op_recv_message
        (snd (Init 100 example_args CensusServerCallData_new)) (example_world :: nat world)
          = Inr (this', w')"
    by blast
  have e: "closure_runs (effects example_world) = []"
    and m1: "m_initial_on_done_recv_message example_calld = Some (Closure_at 11)"
    and m2: "m_initial_on_done_recv_initial_metadata example_calld = Some (Closure_at 10)"
    and m3: "recv_message op_recv_message = Some 3"
      "recv_message_ready op_recv_message = Some (Closure_at 11)"
    by (simp_all add: example_defs)
  have c1: "\<exists>elem' w'. OnDoneRecvMessageCb example_elem (GRPC_ERROR ''cancelled'') example_world
        = Inr (elem', w') \<and>
      closure_runs (effects w') = [(Some (Closure_at 11), GRPC_ERROR ''cancelled'')]"
    using C1_chained_callback_run_once [where w = example_world, THEN conjunct1, rule_format, OF h1]
    by (simp add: e m1)
  have c2: "\<exists>elem' w'. OnDoneRecvInitialMetadataCb example_elem (GRPC_ERROR ''cancelled'') example_world
        = Inr (elem', w') \<and>
      closure_runs (effects w') = [(Some (Closure_at 10), GRPC_ERROR ''cancelled'')]"
    using C1_chained_callback_run_once [where w = example_world, THEN conjunct2, THEN conjunct1, rule_format, OF h2]
    by (simp add: e m2)
  have c3: "\<exists>elem' w'. OnDoneRecvInitialMetadataCb example_elem GRPC_ERROR_NONE example_world
        = Inr (elem', w') \<and>
      closure_runs (effects w') = [(Some (Closure_at 10), GRPC_ERROR_NONE)]"
    using C1_chained_callback_run_once [where w = example_world, THEN conjunct2, THEN conjunct2, THEN conjunct1,
        rule_format, OF h3, of GRPC_ERROR_NONE]
    by (simp add: e m2)
  have c4: "closure_runs (effects w') = [] \<and>
      m_initial_on_done_recv_message this' = Some (Closure_at 11)"
    using C1_chained_callback_run_once [where w = example_world, THEN conjunct2,
        THEN conjunct2, THEN conjunct2, THEN conjunct1, rule_format, OF h4]
    by (simp add: e m3)
  from example_run_returns obtain elem1 w1 where
    r: "run example_wire example_events (new_call 100 example_args, example_world)
          = Inr (elem1, w1)"
    by blast
  from r new_call_call_data
  have h5: "run example_wire example_events (new_call 100 example_args, example_world)
          = Inr (elem1, w1) \<and>
      call_data (new_call 100 example_args :: nat grpc_call_element) =
        Some (snd (Init 100 example_args CensusServerCallData_new))"
    by simp
  have c5: "closure_runs (effects w1) =
        [(Some (Closure_at 10), GRPC_ERROR_NONE), (Some (Closure_at 11), GRPC_ERROR_NONE),
         (Some (Closure_at 11), GRPC_ERROR_NONE), (Some (Closure_at 11), GRPC_ERROR_NONE)]"
    using C1_chained_callback_run_once [where w = example_world, THEN conjunct2,
        THEN conjunct2, THEN conjunct2, THEN conjunct2, THEN conjunct1, rule_format, OF h5]
    by (simp add: e example_events_def example_defs)
  have h6: "follows_protocol example_events False False (in_store example_world)"
    by (simp add: example_events_def example_defs in_store_def)
  have c6: "\<exists>elem2 w2.
      run example_wire example_events (new_call 100 example_args, example_world)
        = Inr (elem2, w2) \<and>
      closure_runs (effects w2) =
        [(Some (Closure_at 10), GRPC_ERROR_NONE), (Some (Closure_at 11), GRPC_ERROR_NONE),
         (Some (Closure_at 11), GRPC_ERROR_NONE), (Some (Closure_at 11), GRPC_ERROR_NONE)]"
    using C1_chained_callback_run_once [where w = example_world, THEN conjunct2,
        THEN conjunct2, THEN conjunct2, THEN conjunct2, THEN conjunct2, rule_format, OF h6,
        where wire = example_wire and ?t0.0 = 100 and args = example_args]
    by (simp add: e example_events_def example_defs)
  from c1 c2 c3 c4 h4 c5 c6 r show ?thesis by blast
qed

subsection \<open>The metadata extractor\<close>

text \<open>
  C5: run on the incoming initial-metadata batch, the metadata extractor copies out the
  bytes of the tracing blob and of the tag-set blob when they are present and removes
  these two entries from the batch; the path is copied and stays in the batch; an entry
  that is absent is no error and leaves the caller's value, which the only caller has
  set to the empty slice.

  The first part gives both results of \<open>FilterInitialMetadata\<close> for any batch: the
  batch that remains is the incoming one without the two blobs (every other entry,
  the path among them, is as it was), and each of the three values is the entry's when
  there is one. The second part is the call as \<open>OnDoneRecvInitialMetadataCb\<close> makes it,
  where an absent entry gives the empty value.
\<close>

theorem C5_FilterInitialMetadata_extracts:
  "FilterInitialMetadata b sml =
     (b\<lparr>idx_named_grpc_trace_bin := None, idx_named_grpc_tags_bin := None\<rparr>,
      \<lparr>path = (case idx_named_path b of None \<Rightarrow> path sml | Some v \<Rightarrow> v),
       tracing_slice =
         (case idx_named_grpc_trace_bin b of None \<Rightarrow> tracing_slice sml | Some v \<Rightarrow> v),
       census_proto =
         (case idx_named_grpc_tags_bin b of None \<Rightarrow> census_proto sml | Some v \<Rightarrow> v)\<rparr>)
   \<and>
   snd (FilterInitialMetadata b
          \<lparr>path = grpc_empty_slice, tracing_slice = grpc_empty_slice,
           census_proto = grpc_empty_slice\<rparr>) =
     \<lparr>path = (case idx_named_path b of None \<Rightarrow> [] | Some v \<Rightarrow> v),
      tracing_slice = (case idx_named_grpc_trace_bin b of None \<Rightarrow> [] | Some v \<Rightarrow> v),
      census_proto = (case idx_named_grpc_tags_bin b of None \<Rightarrow> [] | Some v \<Rightarrow> v)\<rparr>
   \<and>
   idx_named_path (fst (FilterInitialMetadata b sml)) = idx_named_path b"
  by (cases sml)
    (simp add: FilterInitialMetadata_def grpc_metadata_batch_remove_grpc_trace_bin_def
      grpc_metadata_batch_remove_grpc_tags_bin_def grpc_slice_ref_internal_def
      grpc_empty_slice_def split: option.splits)

subsection \<open>The initial-metadata callback\<close>

text \<open>
  C2: the substituted initial-metadata callback is a transition with two branches. When
  the event carries an error, nothing is extracted, no context is built and nothing is
  recorded: the only effect is one run of the chained callback with that error, and the
  call data and the store are unchanged. When there is no error, the callback runs the
  metadata extractor on the batch of the operation, takes the path as the method name,
  builds the context from the tracing blob, the tag-set blob, the empty primary role
  and the method name, records one "RPC started" count of 1 tagged with the method,
  releases the three slices, attaches the context to the call and then runs the chained
  callback with no error, in this order and with no other effect.
\<close>

theorem C2_initial_metadata_two_branches:
  "(call_data elem = Some calld \<and> error \<noteq> GRPC_ERROR_NONE \<longrightarrow>
      OnDoneRecvInitialMetadataCb elem error w =
        Inr (elem,
             w\<lparr>effects := effects w @
                [Eff_GRPC_CLOSURE_RUN (m_initial_on_done_recv_initial_metadata calld) error]\<rparr>))
   \<and>
   (call_data elem = Some calld \<and> m_recv_initial_metadata calld = Some a \<and>
    metadata_batches w a = Some b \<and>
    FilterInitialMetadata b
      \<lparr>path = grpc_empty_slice, tracing_slice = grpc_empty_slice,
       census_proto = grpc_empty_slice\<rparr> = (b1, sml) \<longrightarrow>
      OnDoneRecvInitialMetadataCb elem GRPC_ERROR_NONE w =
        Inr (elem\<lparr>call_data := Some (calld
                \<lparr>m_path := path sml, m_method := path sml,
                 m_context := ServerContext (tracing_slice sml) (census_proto sml) [] (path sml)\<rparr>)\<rparr>,
             w\<lparr>metadata_batches := (metadata_batches w)(a \<mapsto> b1),
               effects := effects w @
                [Eff_GenerateServerContext (tracing_slice sml) (census_proto sml) [] (path sml),
                 Eff_stats_Record [(RpcServerStartedCount, Int_literal 1)]
                   [(kMethodTagKey, path sml)],
                 Eff_grpc_slice_unref_internal (tracing_slice sml),
                 Eff_grpc_slice_unref_internal (census_proto sml),
                 Eff_grpc_slice_unref_internal (path sml),
                 Eff_grpc_census_call_set_context (m_gc calld)
                   (ServerContext (tracing_slice sml) (census_proto sml) [] (path sml)),
                 Eff_GRPC_CLOSURE_RUN (m_initial_on_done_recv_initial_metadata calld)
                   GRPC_ERROR_NONE]\<rparr>))"
  by (simp add: OnDoneRecvInitialMetadataCb_def Let_def GRPC_ERROR_REF_def emit_def
      string_view_def GRPC_SLICE_IS_EMPTY_def GRPC_SLICE_LENGTH_def GRPC_SLICE_START_PTR_def
      grpc_slice_ref_internal_def)

theorem C2_initial_metadata_two_branches_witness:
  "OnDoneRecvInitialMetadataCb example_elem (GRPC_ERROR ''cancelled'') example_world =
     Inr (example_elem,
          example_world\<lparr>effects :=
             [Eff_GRPC_CLOSURE_RUN (Some (Closure_at 10)) (GRPC_ERROR ''cancelled'')]\<rparr>)
   \<and>
   OnDoneRecvInitialMetadataCb example_elem GRPC_ERROR_NONE example_world =
     Inr (example_elem\<lparr>call_data := Some (example_calld
             \<lparr>m_path := ''/svc/Method'', m_method := ''/svc/Method'',
              m_context := ServerContext ''0123456789'' [] [] ''/svc/Method''\<rparr>)\<rparr>,
          example_world
            \<lparr>metadata_batches := (metadata_batches example_world)
               (1 \<mapsto> example_initial_metadata\<lparr>idx_named_grpc_trace_bin := None\<rparr>),
             effects :=
               [Eff_GenerateServerContext ''0123456789'' [] [] ''/svc/Method'',
                Eff_stats_Record [(RpcServerStartedCount, Int_literal 1)]
                  [(kMethodTagKey, ''/svc/Method'')],
                Eff_grpc_slice_unref_internal ''0123456789'',
                Eff_grpc_slice_unref_internal [],
                Eff_grpc_slice_unref_internal ''/svc/Method'',
                Eff_grpc_census_call_set_context (Some 7)
                  (ServerContext ''0123456789'' [] [] ''/svc/Method''),
                Eff_GRPC_CLOSURE_RUN (Some (Closure_at 10)) GRPC_ERROR_NONE]\<rparr>)"
proof -
  have h1: "call_data example_elem = Some example_calld \<and>
      GRPC_ERROR ''cancelled'' \<noteq> GRPC_ERROR_NONE"
    by (simp add: example_elem_def)
  have h2: "call_data example_elem = Some example_calld \<and>
      m_recv_initial_metadata example_calld = Some 1 \<and>
      metadata_batches example_world 1 = Some example_initial_metadata \<and>
      FilterInitialMetadata example_initial_metadata
        \<lparr>path = grpc_empty_slice, tracing_slice = grpc_empty_slice,
         census_proto = grpc_empty_slice\<rparr> =
        (example_initial_metadata\<lparr>idx_named_grpc_trace_bin := None\<rparr>,
         \<lparr>path = ''/svc/Method'', tracing_slice = ''0123456789'', census_proto = []\<rparr>)"
    by (simp add: example_defs FilterInitialMetadata_def grpc_slice_ref_internal_def
        grpc_metadata_batch_remove_grpc_trace_bin_def grpc_empty_slice_def)
  have v: "effects example_world = []"
    "m_initial_on_done_recv_initial_metadata example_calld = Some (Closure_at 10)"
    "m_gc example_calld = Some 7"
    by (simp_all add: example_defs)
  show ?thesis
    using C2_initial_metadata_two_branches [THEN conjunct1, rule_format, OF h1,
        where w = example_world]
      C2_initial_metadata_two_branches [THEN conjunct2, rule_format, OF h2]
    by (simp add: v)
qed

subsection \<open>The message counters\<close>

text \<open>
  C6: for every call, \<^verbatim>\<open>recv_message_count_\<close> is the number of firings of the
  message-received callback at which the received message was not null; a firing with
  a null message (the final empty read) leaves the counter as it is, and every other
  firing adds exactly one.

  The first part is the callback itself: it returns with the counter one higher when
  the slot it reads holds a message, and with the call data unchanged when the slot
  holds null. The second part is a call in any state that goes through any events and
  does not stop on a fault: the counter has grown by the number of message-received
  events with a message. The third part is a call from its creation on, whose events
  come as the transport produces them: the call goes through all of them, and the
  counter is then that number. The counter is counted in its own integer type.
\<close>

theorem C6_recv_message_count:
  "(call_data elem = Some calld \<and> channel_data elem = Some channeld \<and>
    m_recv_message calld = Some slot \<and> byte_stream_slots w slot = Some stream \<longrightarrow>
      (\<exists>w1. OnDoneRecvMessageCb elem error w =
         Inr (elem\<lparr>call_data := Some (calld\<lparr>m_recv_message_count :=
                 (if stream = None then m_recv_message_count calld
                  else m_recv_message_count calld + 1)\<rparr>)\<rparr>, w1)))
   \<and>
   (run wire evs (elem, w) = Inr (elem', w') \<and> call_data elem = Some calld \<longrightarrow>
      (\<exists>calld'. call_data elem' = Some calld' \<and>
         m_recv_message_count calld' =
           m_recv_message_count calld + of_nat (length (filter is_message_received evs))))
   \<and>
   (follows_protocol evs False False (in_store w) \<longrightarrow>
      (\<exists>elem2 w2 calld2. run wire evs (new_call now args, w) = Inr (elem2, w2) \<and>
         call_data elem2 = Some calld2 \<and>
         m_recv_message_count calld2 = of_nat (length (filter is_message_received evs))))"
proof (intro conjI impI)
  assume "call_data elem = Some calld \<and> channel_data elem = Some channeld \<and>
    m_recv_message calld = Some slot \<and> byte_stream_slots w slot = Some stream"
  then show "\<exists>w1. OnDoneRecvMessageCb elem error w =
         Inr (elem\<lparr>call_data := Some (calld\<lparr>m_recv_message_count :=
                 (if stream = None then m_recv_message_count calld
                  else m_recv_message_count calld + 1)\<rparr>)\<rparr>, w1)"
    by (simp add: OnDoneRecvMessageCb_def Let_def)
next
  assume "run wire evs (elem, w) = Inr (elem', w') \<and> call_data elem = Some calld"
  then have r: "run wire evs (elem, w) = Inr (elem', w')" and c: "call_data elem = Some calld"
    by simp_all
  from run_Inr [OF r c]
  show "\<exists>calld'. call_data elem' = Some calld' \<and>
         m_recv_message_count calld' =
           m_recv_message_count calld + of_nat (length (filter is_message_received evs))"
    by blast
next
  assume "follows_protocol evs False False (in_store w)"
  from new_call_returns [OF this] obtain elem2 w2 where
    r: "run wire evs (new_call now args, w) = Inr (elem2, w2)"
    by blast
  from run_Inr [OF r new_call_call_data] r
  show "\<exists>elem2 w2 calld2. run wire evs (new_call now args, w) = Inr (elem2, w2) \<and>
         call_data elem2 = Some calld2 \<and>
         m_recv_message_count calld2 = of_nat (length (filter is_message_received evs))"
    by auto
qed

theorem C6_recv_message_count_witness:
  "(\<exists>w1. OnDoneRecvMessageCb example_elem GRPC_ERROR_NONE example_world =
      Inr (example_elem\<lparr>call_data := Some (example_calld\<lparr>m_recv_message_count := 1\<rparr>)\<rparr>, w1))
   \<and>
   (\<exists>elem' w' calld'.
      run example_wire example_events (new_call 100 example_args, example_world)
        = Inr (elem', w') \<and>
      call_data elem' = Some calld' \<and> m_recv_message_count calld' = 2)"
proof -
  have h1: "call_data example_elem = Some example_calld \<and>
      channel_data example_elem = Some CensusChannelData \<and>
      m_recv_message example_calld = Some 3 \<and>
      byte_stream_slots example_world 3 = Some (Some ''hello'')"
    by (simp add: example_defs)
  have v: "m_recv_message_count example_calld = 0"
    by (simp add: example_defs)
  have c1: "\<exists>w1. OnDoneRecvMessageCb example_elem GRPC_ERROR_NONE example_world =
      Inr (example_elem\<lparr>call_data := Some (example_calld\<lparr>m_recv_message_count := 1\<rparr>)\<rparr>, w1)"
    using C6_recv_message_count [THEN conjunct1, rule_format, OF h1, of GRPC_ERROR_NONE]
    by (simp add: v)
  from example_run_returns obtain elem' w' where
    r: "run example_wire example_events (new_call 100 example_args, example_world)
          = Inr (elem', w')"
    by blast
  have n: "length (filter is_message_received example_events) = 2"
    by (simp add: example_events_def)
  from r new_call_call_data
  have h2: "run example_wire example_events (new_call 100 example_args, example_world)
          = Inr (elem', w') \<and>
      call_data (new_call 100 example_args :: nat grpc_call_element) =
        Some (snd (Init 100 example_args CensusServerCallData_new))"
    by simp
  have c2: "\<exists>calld'. call_data elem' = Some calld' \<and> m_recv_message_count calld' = 2"
    using C6_recv_message_count [THEN conjunct2, THEN conjunct1, rule_format, OF h2]
    by (simp add: n numeral_2_eq_2)
  have h3: "follows_protocol example_events False False (in_store example_world)"
    by (simp add: example_events_def example_defs in_store_def)
  have c3: "\<exists>elem2 w2 calld2.
      run example_wire example_events (new_call 100 example_args, example_world)
        = Inr (elem2, w2) \<and>
      call_data elem2 = Some calld2 \<and> m_recv_message_count calld2 = 2"
    using C6_recv_message_count [THEN conjunct2, THEN conjunct2, rule_format, OF h3,
        where wire = example_wire and now = 100 and args = example_args]
    by (simp add: n)
  from c1 c2 c3 r show ?thesis by blast
qed

text \<open>
  C7: for every call, \<^verbatim>\<open>sent_message_count_\<close> is the number of operation batches
  with a send-message operation that passed through the operation handler; each such
  batch adds exactly one when it passes through, whatever becomes of the send later.

  The first part is the handler: when it returns, the counter is one higher for a batch
  with a send-message operation and unchanged for any other batch. The second part is a
  call in any state that goes through any events: the counter has grown by the number
  of batches with a send-message operation, so no completion event takes a count back.
  The third part is a call from its creation on, whose events come as the transport
  produces them: the call goes through all of them, and the counter is then that number.
\<close>

theorem C7_sent_message_count:
  "(StartTransportStreamOpBatch wire now buf op this w = Inr (this', w0) \<longrightarrow>
      m_sent_message_count this' =
        (if send_message op = None then m_sent_message_count this
         else m_sent_message_count this + 1))
   \<and>
   (run wire evs (elem, w) = Inr (elem', w') \<and> call_data elem = Some calld \<longrightarrow>
      (\<exists>calld'. call_data elem' = Some calld' \<and>
         m_sent_message_count calld' =
           m_sent_message_count calld + of_nat (length (filter carries_send_message evs))))
   \<and>
   (follows_protocol evs False False (in_store w) \<longrightarrow>
      (\<exists>elem2 w2 calld2. run wire evs (new_call now args, w) = Inr (elem2, w2) \<and>
         call_data elem2 = Some calld2 \<and>
         m_sent_message_count calld2 = of_nat (length (filter carries_send_message evs))))"
proof (intro conjI impI)
  assume "StartTransportStreamOpBatch wire now buf op this w = Inr (this', w0)"
  then show "m_sent_message_count this' =
        (if send_message op = None then m_sent_message_count this
         else m_sent_message_count this + 1)"
    by (rule StartTransportStreamOpBatch_Inr(2))
next
  assume "run wire evs (elem, w) = Inr (elem', w') \<and> call_data elem = Some calld"
  then have r: "run wire evs (elem, w) = Inr (elem', w')" and c: "call_data elem = Some calld"
    by simp_all
  from run_Inr [OF r c]
  show "\<exists>calld'. call_data elem' = Some calld' \<and>
         m_sent_message_count calld' =
           m_sent_message_count calld + of_nat (length (filter carries_send_message evs))"
    by blast
next
  assume "follows_protocol evs False False (in_store w)"
  from new_call_returns [OF this] obtain elem2 w2 where
    r: "run wire evs (new_call now args, w) = Inr (elem2, w2)"
    by blast
  from run_Inr [OF r new_call_call_data] r
  show "\<exists>elem2 w2 calld2. run wire evs (new_call now args, w) = Inr (elem2, w2) \<and>
         call_data elem2 = Some calld2 \<and>
         m_sent_message_count calld2 = of_nat (length (filter carries_send_message evs))"
    by auto
qed

theorem C7_sent_message_count_witness:
  "(\<exists>this' w0. StartTransportStreamOpBatch example_wire 500 [] op_send_message example_calld
        example_world = Inr (this', w0) \<and> m_sent_message_count this' = 1)
   \<and>
   (\<exists>elem' w' calld'.
      run example_wire example_events (new_call 100 example_args, example_world)
        = Inr (elem', w') \<and>
      call_data elem' = Some calld' \<and> m_sent_message_count calld' = 1)"
proof -
  have "\<exists>this' w0. StartTransportStreamOpBatch example_wire 500 [] op_send_message example_calld
        example_world = Inr (this', w0)"
    by (simp add: StartTransportStreamOpBatch_def example_defs)
  then obtain this' w0 where
    h1: "StartTransportStreamOpBatch example_wire 500 [] op_send_message example_calld
        example_world = Inr (this', w0)"
    by blast
  have v: "m_sent_message_count example_calld = 0" "send_message op_send_message \<noteq> None"
    by (simp_all add: example_defs)
  have c1: "m_sent_message_count this' = 1"
    using C7_sent_message_count [THEN conjunct1, rule_format, OF h1]
    by (simp add: v)
  from example_run_returns obtain elem' w' where
    r: "run example_wire example_events (new_call 100 example_args, example_world)
          = Inr (elem', w')"
    by blast
  have n: "length (filter carries_send_message example_events) = 1"
    by (simp add: example_events_def example_defs)
  from r new_call_call_data
  have h2: "run example_wire example_events (new_call 100 example_args, example_world)
          = Inr (elem', w') \<and>
      call_data (new_call 100 example_args :: nat grpc_call_element) =
        Some (snd (Init 100 example_args CensusServerCallData_new))"
    by simp
  have c2: "\<exists>calld'. call_data elem' = Some calld' \<and> m_sent_message_count calld' = 1"
    using C7_sent_message_count [THEN conjunct2, THEN conjunct1, rule_format, OF h2]
    by (simp add: n)
  have h3: "follows_protocol example_events False False (in_store example_world)"
    by (simp add: example_events_def example_defs in_store_def)
  have c3: "\<exists>elem2 w2 calld2.
      run example_wire example_events (new_call 100 example_args, example_world)
        = Inr (elem2, w2) \<and>
      call_data elem2 = Some calld2 \<and> m_sent_message_count calld2 = 1"
    using C7_sent_message_count [THEN conjunct2, THEN conjunct2, rule_format, OF h3,
        where wire = example_wire and now = 100 and args = example_args]
    by (simp add: n)
  from c1 c2 c3 h1 r show ?thesis by blast
qed

subsection \<open>The measurements at destruction\<close>

text \<open>
  C3: at call destruction the metric emitter submits exactly one batch, and no
  measurement of the accumulated state is emitted before. The batch holds the error
  count (0 when the final status is success, 1 otherwise), the request bytes, the
  response bytes, the server elapsed time in fractional milliseconds (of the zero
  duration when no send-trailing-metadata operation ever set \<^verbatim>\<open>elapsed_time_\<close>), the
  request count, which is \<^verbatim>\<open>sent_message_count_\<close>, the finished count, which is the
  constant 1, and the response count, which is \<^verbatim>\<open>recv_message_count_\<close>, all tagged with
  the method name and the string form of the final status.

  The first part is \<open>Destroy\<close> in any state: it adds one record to those made so far,
  with these seven measurements and two tags. The second part is the call before its
  destruction: whatever events it goes through, every record made is a started count
  of 1 tagged with a method, so none carries a counter, a byte size or the elapsed
  time. The third part is a call in any state that goes through events without a
  send-trailing-metadata operation: \<^verbatim>\<open>elapsed_time_\<close> is as it was. The fourth part is
  such a call from its creation on: the elapsed time that \<open>Destroy\<close> then records is
  that of the zero duration.
\<close>

theorem C3_final_batch:
  "stats_records (effects (Destroy StatusCodeToString final_info this w)) =
     stats_records (effects w) @
       [([(RpcServerErrorCount,
             Int_literal (if final_status final_info = GRPC_STATUS_OK then 0 else 1)),
          (RpcServerRequestBytes, Double (static_cast_double (GetOutgoingDataSize final_info))),
          (RpcServerResponseBytes, Double (static_cast_double (GetIncomingDataSize final_info))),
          (RpcServerServerElapsedTime, Double (absl_ToDoubleMilliseconds (m_elapsed_time this))),
          (RpcServerRequestCount, Counter (m_sent_message_count this)),
          (RpcServerFinishedCount, Int_literal 1),
          (RpcServerResponseCount, Counter (m_recv_message_count this))],
         [(kMethodTagKey, m_method this),
          (kStatusTagKey, StatusCodeToString (final_status final_info))])]
   \<and>
   (run wire evs (elem, w) = Inr (elem', w') \<and> call_data elem = Some calld \<longrightarrow>
      (\<exists>ms. stats_records (effects w') = stats_records (effects w) @
         map (\<lambda>m. ([(RpcServerStartedCount, Int_literal 1)], [(kMethodTagKey, m)])) ms))
   \<and>
   (run wire evs (elem, w) = Inr (elem', w') \<and> call_data elem = Some calld \<and>
    filter carries_send_trailing_metadata evs = [] \<longrightarrow>
      (\<exists>calld'. call_data elem' = Some calld' \<and> m_elapsed_time calld' = m_elapsed_time calld))
   \<and>
   (run wire evs (new_call now args, w) = Inr (elem', w') \<and>
    filter carries_send_trailing_metadata evs = [] \<longrightarrow>
      (\<exists>calld' ms ts. call_data elem' = Some calld' \<and>
         stats_records (effects (Destroy StatusCodeToString final_info calld' w')) =
           stats_records (effects w') @ [(ms, ts)] \<and>
         filter (\<lambda>m. fst m = RpcServerServerElapsedTime) ms =
           [(RpcServerServerElapsedTime, Double (absl_ToDoubleMilliseconds absl_ZeroDuration))]))"
proof (intro conjI impI)
  show "stats_records (effects (Destroy StatusCodeToString final_info this w)) =
     stats_records (effects w) @
       [([(RpcServerErrorCount,
             Int_literal (if final_status final_info = GRPC_STATUS_OK then 0 else 1)),
          (RpcServerRequestBytes, Double (static_cast_double (GetOutgoingDataSize final_info))),
          (RpcServerResponseBytes, Double (static_cast_double (GetIncomingDataSize final_info))),
          (RpcServerServerElapsedTime, Double (absl_ToDoubleMilliseconds (m_elapsed_time this))),
          (RpcServerRequestCount, Counter (m_sent_message_count this)),
          (RpcServerFinishedCount, Int_literal 1),
          (RpcServerResponseCount, Counter (m_recv_message_count this))],
         [(kMethodTagKey, m_method this),
          (kStatusTagKey, StatusCodeToString (final_status final_info))])]"
    by (rule Destroy_stats_records)
next
  assume "run wire evs (elem, w) = Inr (elem', w') \<and> call_data elem = Some calld"
  then have r: "run wire evs (elem, w) = Inr (elem', w')" and c: "call_data elem = Some calld"
    by simp_all
  from run_Inr [OF r c]
  show "\<exists>ms. stats_records (effects w') = stats_records (effects w) @
         map (\<lambda>m. ([(RpcServerStartedCount, Int_literal 1)], [(kMethodTagKey, m)])) ms"
    by blast
next
  assume "run wire evs (elem, w) = Inr (elem', w') \<and> call_data elem = Some calld \<and>
    filter carries_send_trailing_metadata evs = []"
  then have r: "run wire evs (elem, w) = Inr (elem', w')" and c: "call_data elem = Some calld"
    and n: "filter carries_send_trailing_metadata evs = []"
    by simp_all
  from run_Inr [OF r c] n
  show "\<exists>calld'. call_data elem' = Some calld' \<and> m_elapsed_time calld' = m_elapsed_time calld"
    by blast
next
  assume "run wire evs (new_call now args, w) = Inr (elem', w') \<and>
    filter carries_send_trailing_metadata evs = []"
  then have r: "run wire evs (new_call now args, w) = Inr (elem', w')"
    and n: "filter carries_send_trailing_metadata evs = []"
    by simp_all
  from run_Inr [OF r new_call_call_data] n obtain calld' where
    c: "call_data elem' = Some calld'" and z: "m_elapsed_time calld' = absl_ZeroDuration"
    by auto
  show "\<exists>calld' ms ts. call_data elem' = Some calld' \<and>
         stats_records (effects (Destroy StatusCodeToString final_info calld' w')) =
           stats_records (effects w') @ [(ms, ts)] \<and>
         filter (\<lambda>m. fst m = RpcServerServerElapsedTime) ms =
           [(RpcServerServerElapsedTime, Double (absl_ToDoubleMilliseconds absl_ZeroDuration))]"
    using c z by (simp add: Destroy_stats_records)
qed

theorem C3_final_batch_witness:
  "(\<exists>elem' w' calld'.
      run example_wire example_events (new_call 100 example_args, example_world)
        = Inr (elem', w') \<and>
      call_data elem' = Some calld' \<and>
      stats_records (effects w') =
        [([(RpcServerStartedCount, Int_literal 1)], [(kMethodTagKey, ''/svc/Method'')])] \<and>
      stats_records (effects (Destroy example_StatusCodeToString example_final_info calld' w')) =
        [([(RpcServerStartedCount, Int_literal 1)], [(kMethodTagKey, ''/svc/Method'')]),
         ([(RpcServerErrorCount, Int_literal 0),
           (RpcServerRequestBytes, Double (static_cast_double 5)),
           (RpcServerResponseBytes, Double (static_cast_double 10)),
           (RpcServerServerElapsedTime, Double (absl_ToDoubleMilliseconds 5000000)),
           (RpcServerRequestCount, Counter 1),
           (RpcServerFinishedCount, Int_literal 1),
           (RpcServerResponseCount, Counter 2)],
          [(kMethodTagKey, ''/svc/Method''), (kStatusTagKey, ''OK'')])])
   \<and>
   (\<exists>elem' w' calld' ms ts.
      run example_wire failed_events (new_call 100 example_args, example_world)
        = Inr (elem', w') \<and>
      call_data elem' = Some calld' \<and>
      stats_records (effects (Destroy example_StatusCodeToString example_final_info calld' w')) =
        stats_records (effects w') @ [(ms, ts)] \<and>
      m_elapsed_time calld' = absl_ZeroDuration \<and>
      filter (\<lambda>m. fst m = RpcServerServerElapsedTime) ms =
        [(RpcServerServerElapsedTime, Double (absl_ToDoubleMilliseconds absl_ZeroDuration))])"
proof -
  have "\<exists>elem' w' calld'.
      run example_wire example_events (new_call 100 example_args, example_world)
        = Inr (elem', w') \<and>
      call_data elem' = Some calld' \<and>
      m_method calld' = ''/svc/Method'' \<and> m_elapsed_time calld' = 5000000 \<and>
      m_sent_message_count calld' = 1 \<and> m_recv_message_count calld' = 2 \<and>
      stats_records (effects w') =
        [([(RpcServerStartedCount, Int_literal 1)], [(kMethodTagKey, ''/svc/Method'')])]"
    by (simp add: example_events_def example_defs run_defs)
  then obtain elem' w' calld' where
    r: "run example_wire example_events (new_call 100 example_args, example_world)
        = Inr (elem', w')"
    and c: "call_data elem' = Some calld'"
    and v: "m_method calld' = ''/svc/Method''" "m_elapsed_time calld' = 5000000"
      "m_sent_message_count calld' = 1" "m_recv_message_count calld' = 2"
    and s: "stats_records (effects w') =
        [([(RpcServerStartedCount, Int_literal 1)], [(kMethodTagKey, ''/svc/Method'')])]"
    by blast
  have h2: "run example_wire example_events (new_call 100 example_args, example_world)
        = Inr (elem', w') \<and>
      call_data (new_call 100 example_args :: nat grpc_call_element) =
        Some (snd (Init 100 example_args CensusServerCallData_new))"
    using r new_call_call_data by simp
  have d: "stats_records (effects (Destroy example_StatusCodeToString example_final_info calld' w')) =
        [([(RpcServerStartedCount, Int_literal 1)], [(kMethodTagKey, ''/svc/Method'')]),
         ([(RpcServerErrorCount, Int_literal 0),
           (RpcServerRequestBytes, Double (static_cast_double 5)),
           (RpcServerResponseBytes, Double (static_cast_double 10)),
           (RpcServerServerElapsedTime, Double (absl_ToDoubleMilliseconds 5000000)),
           (RpcServerRequestCount, Counter 1),
           (RpcServerFinishedCount, Int_literal 1),
           (RpcServerResponseCount, Counter 2)],
          [(kMethodTagKey, ''/svc/Method''), (kStatusTagKey, ''OK'')])]"
    using C3_final_batch [THEN conjunct1, of example_StatusCodeToString example_final_info
        calld' w']
      C3_final_batch [THEN conjunct2, THEN conjunct1, rule_format, OF h2]
    by (simp add: v s example_final_info_def example_StatusCodeToString_def GRPC_STATUS_OK_def
        GetOutgoingDataSize_def GetIncomingDataSize_def)
  from failed_run_returns obtain elem2 w2 where
    r2: "run example_wire failed_events (new_call 100 example_args, example_world)
        = Inr (elem2, w2)"
    by blast
  have h3: "run example_wire failed_events (new_call 100 example_args, example_world)
        = Inr (elem2, w2) \<and>
      filter carries_send_trailing_metadata failed_events = []"
    using r2 by (simp add: failed_events_def example_defs)
  have h4: "run example_wire failed_events (new_call 100 example_args, example_world)
        = Inr (elem2, w2) \<and>
      call_data (new_call 100 example_args :: nat grpc_call_element) =
        Some (snd (Init 100 example_args CensusServerCallData_new)) \<and>
      filter carries_send_trailing_metadata failed_events = []"
    using h3 new_call_call_data by simp
  from C3_final_batch [THEN conjunct2, THEN conjunct2, THEN conjunct1, rule_format, OF h4]
  obtain calld2 where
    c2: "call_data elem2 = Some calld2" and z: "m_elapsed_time calld2 = absl_ZeroDuration"
    by auto
  from C3_final_batch [THEN conjunct2, THEN conjunct2, THEN conjunct2, rule_format, OF h3,
      of example_StatusCodeToString example_final_info] c2 z
  have "\<exists>calld' ms ts. call_data elem2 = Some calld' \<and>
      stats_records (effects (Destroy example_StatusCodeToString example_final_info calld' w2)) =
        stats_records (effects w2) @ [(ms, ts)] \<and>
      m_elapsed_time calld' = absl_ZeroDuration \<and>
      filter (\<lambda>m. fst m = RpcServerServerElapsedTime) ms =
        [(RpcServerServerElapsedTime, Double (absl_ToDoubleMilliseconds absl_ZeroDuration))]"
    by auto
  with r2 r c s d show ?thesis by blast
qed

text \<open>
  C9: at call destruction the final batch is submitted unconditionally, also for a call
  whose initial metadata was never processed with success (the event carried an error
  or never came): the batch is recorded all the same, its method tag is the empty
  string, and no "RPC started" measurement came before it.

  The first part is \<open>Destroy\<close> in any state, which has no condition and no failure: it
  adds exactly one record, the final batch, with its seven measurements read from the
  final-info record and the call data and with its two tags. The second part is a call
  in any state that goes through any events of which none is an initial-metadata event
  without error: the method is as it was and nothing is recorded. The third part is
  such a call from its creation on: nothing is recorded before the destruction, and the
  destruction records the final batch, with the request count and the response count
  that the events of the call make, tagged with the empty method and the string form
  of the final status.
\<close>

theorem C9_final_batch_unconditional:
  "stats_records (effects (Destroy StatusCodeToString final_info this w0)) =
     stats_records (effects w0) @
       [([(RpcServerErrorCount,
             Int_literal (if final_status final_info = GRPC_STATUS_OK then 0 else 1)),
          (RpcServerRequestBytes, Double (static_cast_double (GetOutgoingDataSize final_info))),
          (RpcServerResponseBytes, Double (static_cast_double (GetIncomingDataSize final_info))),
          (RpcServerServerElapsedTime, Double (absl_ToDoubleMilliseconds (m_elapsed_time this))),
          (RpcServerRequestCount, Counter (m_sent_message_count this)),
          (RpcServerFinishedCount, Int_literal 1),
          (RpcServerResponseCount, Counter (m_recv_message_count this))],
         [(kMethodTagKey, m_method this),
          (kStatusTagKey, StatusCodeToString (final_status final_info))])]
   \<and>
   (run wire evs (elem, w) = Inr (elem', w') \<and> call_data elem = Some calld \<and>
    filter is_initial_metadata_success evs = [] \<longrightarrow>
      (\<exists>calld'. call_data elem' = Some calld' \<and> m_method calld' = m_method calld \<and>
         stats_records (effects w') = stats_records (effects w)))
   \<and>
   (run wire evs (new_call now args, w) = Inr (elem', w') \<and>
    filter is_initial_metadata_success evs = [] \<longrightarrow>
      (\<exists>calld'. call_data elem' = Some calld' \<and>
         stats_records (effects w') = stats_records (effects w) \<and>
         stats_records (effects (Destroy StatusCodeToString final_info calld' w')) =
           stats_records (effects w) @
             [([(RpcServerErrorCount,
                   Int_literal (if final_status final_info = GRPC_STATUS_OK then 0 else 1)),
                (RpcServerRequestBytes,
                   Double (static_cast_double (GetOutgoingDataSize final_info))),
                (RpcServerResponseBytes,
                   Double (static_cast_double (GetIncomingDataSize final_info))),
                (RpcServerServerElapsedTime,
                   Double (absl_ToDoubleMilliseconds (m_elapsed_time calld'))),
                (RpcServerRequestCount,
                   Counter (of_nat (length (filter carries_send_message evs)))),
                (RpcServerFinishedCount, Int_literal 1),
                (RpcServerResponseCount,
                   Counter (of_nat (length (filter is_message_received evs))))],
               [(kMethodTagKey, []),
                (kStatusTagKey, StatusCodeToString (final_status final_info))])]))"
proof (intro conjI impI)
  show "stats_records (effects (Destroy StatusCodeToString final_info this w0)) =
     stats_records (effects w0) @
       [([(RpcServerErrorCount,
             Int_literal (if final_status final_info = GRPC_STATUS_OK then 0 else 1)),
          (RpcServerRequestBytes, Double (static_cast_double (GetOutgoingDataSize final_info))),
          (RpcServerResponseBytes, Double (static_cast_double (GetIncomingDataSize final_info))),
          (RpcServerServerElapsedTime, Double (absl_ToDoubleMilliseconds (m_elapsed_time this))),
          (RpcServerRequestCount, Counter (m_sent_message_count this)),
          (RpcServerFinishedCount, Int_literal 1),
          (RpcServerResponseCount, Counter (m_recv_message_count this))],
         [(kMethodTagKey, m_method this),
          (kStatusTagKey, StatusCodeToString (final_status final_info))])]"
    by (rule Destroy_stats_records)
next
  assume "run wire evs (elem, w) = Inr (elem', w') \<and> call_data elem = Some calld \<and>
    filter is_initial_metadata_success evs = []"
  then have r: "run wire evs (elem, w) = Inr (elem', w')" and c: "call_data elem = Some calld"
    and n: "filter is_initial_metadata_success evs = []"
    by simp_all
  from run_Inr [OF r c] n
  show "\<exists>calld'. call_data elem' = Some calld' \<and> m_method calld' = m_method calld \<and>
         stats_records (effects w') = stats_records (effects w)"
    by auto
next
  assume "run wire evs (new_call now args, w) = Inr (elem', w') \<and>
    filter is_initial_metadata_success evs = []"
  then have r: "run wire evs (new_call now args, w) = Inr (elem', w')"
    and n: "filter is_initial_metadata_success evs = []"
    by simp_all
  from run_Inr [OF r new_call_call_data] n obtain calld' where
    c: "call_data elem' = Some calld'" and m: "m_method calld' = []"
    and s: "stats_records (effects w') = stats_records (effects w)"
    and q: "m_sent_message_count calld' = of_nat (length (filter carries_send_message evs))"
    and p: "m_recv_message_count calld' = of_nat (length (filter is_message_received evs))"
    by auto
  then show "\<exists>calld'. call_data elem' = Some calld' \<and>
         stats_records (effects w') = stats_records (effects w) \<and>
         stats_records (effects (Destroy StatusCodeToString final_info calld' w')) =
           stats_records (effects w) @
             [([(RpcServerErrorCount,
                   Int_literal (if final_status final_info = GRPC_STATUS_OK then 0 else 1)),
                (RpcServerRequestBytes,
                   Double (static_cast_double (GetOutgoingDataSize final_info))),
                (RpcServerResponseBytes,
                   Double (static_cast_double (GetIncomingDataSize final_info))),
                (RpcServerServerElapsedTime,
                   Double (absl_ToDoubleMilliseconds (m_elapsed_time calld'))),
                (RpcServerRequestCount,
                   Counter (of_nat (length (filter carries_send_message evs)))),
                (RpcServerFinishedCount, Int_literal 1),
                (RpcServerResponseCount,
                   Counter (of_nat (length (filter is_message_received evs))))],
               [(kMethodTagKey, []),
                (kStatusTagKey, StatusCodeToString (final_status final_info))])]"
    by (simp add: Destroy_stats_records)
qed

theorem C9_final_batch_unconditional_witness:
  "\<exists>elem' w' calld'.
      run example_wire failed_events (new_call 100 example_args, example_world)
        = Inr (elem', w') \<and>
      call_data elem' = Some calld' \<and>
      m_method calld' = [] \<and>
      stats_records (effects w') = [] \<and>
      stats_records (effects (Destroy example_StatusCodeToString example_final_info calld' w')) =
        [([(RpcServerErrorCount, Int_literal 0),
           (RpcServerRequestBytes, Double (static_cast_double 5)),
           (RpcServerResponseBytes, Double (static_cast_double 10)),
           (RpcServerServerElapsedTime, Double (absl_ToDoubleMilliseconds 0)),
           (RpcServerRequestCount, Counter 1),
           (RpcServerFinishedCount, Int_literal 1),
           (RpcServerResponseCount, Counter 0)],
          [(kMethodTagKey, []), (kStatusTagKey, ''OK'')])]"
proof -
  have "\<exists>elem' w' calld'.
      run example_wire failed_events (new_call 100 example_args, example_world)
        = Inr (elem', w') \<and>
      call_data elem' = Some calld' \<and> m_elapsed_time calld' = 0"
    by (simp add: failed_events_def example_defs run_defs)
  then obtain elem' w' calld' where
    r: "run example_wire failed_events (new_call 100 example_args, example_world)
        = Inr (elem', w')"
    and c: "call_data elem' = Some calld'"
    and z: "m_elapsed_time calld' = 0"
    by blast
  have h: "run example_wire failed_events (new_call 100 example_args, example_world)
        = Inr (elem', w') \<and>
      filter is_initial_metadata_success failed_events = []"
    using r by (simp add: failed_events_def)
  have h0: "run example_wire failed_events (new_call 100 example_args, example_world)
        = Inr (elem', w') \<and>
      call_data (new_call 100 example_args :: nat grpc_call_element) =
        Some (snd (Init 100 example_args CensusServerCallData_new)) \<and>
      filter is_initial_metadata_success failed_events = []"
    using h new_call_call_data by simp
  have v: "stats_records (effects example_world) = []"
    "example_StatusCodeToString (final_status example_final_info) = ''OK''"
    "example_StatusCodeToString GRPC_STATUS_OK = ''OK''"
    "final_status example_final_info = GRPC_STATUS_OK"
    "GetOutgoingDataSize example_final_info = 5"
    "GetIncomingDataSize example_final_info = 10"
    "length (filter carries_send_message failed_events) = 1"
    "length (filter is_message_received failed_events) = 0"
    by (simp_all add: example_defs example_StatusCodeToString_def GRPC_STATUS_OK_def
        GetOutgoingDataSize_def GetIncomingDataSize_def failed_events_def)
  from C9_final_batch_unconditional [THEN conjunct2, THEN conjunct1, rule_format, OF h0] c
  have g: "m_method calld' = []"
    by auto
  from c z C9_final_batch_unconditional [THEN conjunct2, THEN conjunct2, rule_format, OF h,
      of example_StatusCodeToString example_final_info]
  have "stats_records (effects w') = [] \<and>
      stats_records (effects (Destroy example_StatusCodeToString example_final_info calld' w')) =
        [([(RpcServerErrorCount, Int_literal 0),
           (RpcServerRequestBytes, Double (static_cast_double 5)),
           (RpcServerResponseBytes, Double (static_cast_double 10)),
           (RpcServerServerElapsedTime, Double (absl_ToDoubleMilliseconds 0)),
           (RpcServerRequestCount, Counter 1),
           (RpcServerFinishedCount, Int_literal 1),
           (RpcServerResponseCount, Counter 0)],
          [(kMethodTagKey, []), (kStatusTagKey, ''OK'')])]"
    by (auto simp add: v)
  with r c g show ?thesis by blast
qed

text \<open>
  C10: in the final batch the "request bytes" measurement is the outgoing payload size
  of the transport's final-info record and the "response bytes" measurement is its
  incoming payload size, as the request count is the count of sent messages and the
  response count the count of received messages.

  \<open>Destroy\<close> adds one record, and in it each of the four measures occurs once, with
  these values.
\<close>

theorem C10_request_bytes_are_outgoing:
  "\<exists>ms ts.
      stats_records (effects (Destroy StatusCodeToString final_info this w)) =
        stats_records (effects w) @ [(ms, ts)] \<and>
      filter (\<lambda>m. fst m = RpcServerRequestBytes) ms =
        [(RpcServerRequestBytes, Double (static_cast_double (outgoing_data_bytes final_info)))] \<and>
      filter (\<lambda>m. fst m = RpcServerResponseBytes) ms =
        [(RpcServerResponseBytes, Double (static_cast_double (incoming_data_bytes final_info)))] \<and>
      filter (\<lambda>m. fst m = RpcServerRequestCount) ms =
        [(RpcServerRequestCount, Counter (m_sent_message_count this))] \<and>
      filter (\<lambda>m. fst m = RpcServerResponseCount) ms =
        [(RpcServerResponseCount, Counter (m_recv_message_count this))]"
  by (simp add: Destroy_stats_records GetOutgoingDataSize_def GetIncomingDataSize_def)

subsection \<open>Trailing metadata\<close>

text \<open>
  C4: when an outgoing operation batch carries a send-trailing-metadata operation,
  \<^verbatim>\<open>elapsed_time_\<close> is set to now minus \<^verbatim>\<open>start_time_\<close> and the encoder of the server
  statistics is called with a ceiling of 32 bytes; the encoder returns length zero and
  writes nothing when the serialized form would exceed the ceiling; the server-stats
  entry is appended to the outgoing trailing metadata only when the encoded length is
  not zero; a failure to append is logged and does not fail the call.

  The first part is the handler on a batch with trailing metadata whose batch is in the
  store, where \<open>len\<close> and \<open>buf1\<close> are what the encoder returns for the saturated
  nanoseconds of the elapsed time, the array and the ceiling 32: the handler returns,
  the elapsed time is set, and the batch is forwarded; with \<open>len = 0\<close> the store is
  unchanged; otherwise the first \<open>len\<close> bytes of the array become the server-stats
  entry, unless the batch holds one already, in which case the store is unchanged, the
  error is logged and the batch is forwarded all the same. The second and third part
  are the encoder. The fourth part is a batch without trailing metadata, which changes
  neither the elapsed time nor any metadata.
\<close>

theorem C4_send_trailing_metadata:
  "(send_trailing_metadata op = Some mb \<and> batch mb = Some a \<and> metadata_batches w a = Some b \<and>
    ServerStatsSerialize wire (absl_ToInt64Nanoseconds (now - m_start_time this)) buf 32
      = (len, buf1) \<longrightarrow>
      (\<exists>this' w'. StartTransportStreamOpBatch wire now buf op this w = Inr (this', w') \<and>
         m_elapsed_time this' = now - m_start_time this \<and>
         (if len = 0 then
            metadata_batches w' = metadata_batches w \<and>
            effects w' = effects w @ [Eff_grpc_call_next_op (intercepted op)]
          else if idx_named_grpc_server_stats_bin b = None then
            metadata_batches w' = (metadata_batches w)
              (a \<mapsto> b\<lparr>idx_named_grpc_server_stats_bin := Some (take len buf1)\<rparr>) \<and>
            effects w' = effects w @ [Eff_grpc_call_next_op (intercepted op)]
          else
            metadata_batches w' = metadata_batches w \<and>
            effects w' = effects w @
              [Eff_gpr_log_error ''census grpc_filter''
                 (GRPC_ERROR ''Unallowed duplicate metadata''),
               Eff_grpc_call_next_op (intercepted op)])))
   \<and>
   (length (wire t) > max_len \<longrightarrow> ServerStatsSerialize wire t buf0 max_len = (0, buf0))
   \<and>
   (length (wire t) \<le> max_len \<longrightarrow>
      fst (ServerStatsSerialize wire t buf0 max_len) = length (wire t) \<and>
      take (length (wire t)) (snd (ServerStatsSerialize wire t buf0 max_len)) = wire t)
   \<and>
   (send_trailing_metadata op = None \<and>
    StartTransportStreamOpBatch wire now buf op this w = Inr (this2, w2) \<longrightarrow>
      m_elapsed_time this2 = m_elapsed_time this \<and> metadata_batches w2 = metadata_batches w)"
proof (intro conjI impI)
  assume h: "send_trailing_metadata op = Some mb \<and> batch mb = Some a \<and>
    metadata_batches w a = Some b \<and>
    ServerStatsSerialize wire (absl_ToInt64Nanoseconds (now - m_start_time this)) buf 32
      = (len, buf1)"
  then have up: "(metadata_batches w)(a \<mapsto> b) = metadata_batches w"
    by (simp add: fun_upd_idem)
  have defs: "kMaxServerStatsLen = 32" by (simp add: kMaxServerStatsLen_def)
  note unfold = StartTransportStreamOpBatch_def Let_def intercepted_def defs
    grpc_metadata_batch_add_tail_GRPC_SERVER_STATS_BIN_def
    grpc_slice_from_copied_buffer_def GRPC_LOG_IF_ERROR_def emit_def
  show "\<exists>this' w'. StartTransportStreamOpBatch wire now buf op this w = Inr (this', w') \<and>
         m_elapsed_time this' = now - m_start_time this \<and>
         (if len = 0 then
            metadata_batches w' = metadata_batches w \<and>
            effects w' = effects w @ [Eff_grpc_call_next_op (intercepted op)]
          else if idx_named_grpc_server_stats_bin b = None then
            metadata_batches w' = (metadata_batches w)
              (a \<mapsto> b\<lparr>idx_named_grpc_server_stats_bin := Some (take len buf1)\<rparr>) \<and>
            effects w' = effects w @ [Eff_grpc_call_next_op (intercepted op)]
          else
            metadata_batches w' = metadata_batches w \<and>
            effects w' = effects w @
              [Eff_gpr_log_error ''census grpc_filter''
                 (GRPC_ERROR ''Unallowed duplicate metadata''),
               Eff_grpc_call_next_op (intercepted op)])"
  proof (cases "len = 0")
    case True
    with h show ?thesis
      by (simp add: unfold split: option.splits)
  next
    case False
    show ?thesis
    proof (cases "idx_named_grpc_server_stats_bin b")
      case None
      with h False show ?thesis
        by (simp add: unfold split: option.splits)
    next
      case (Some old)
      with h False up show ?thesis
        by (simp add: unfold split: option.splits)
    qed
  qed
next
  assume "length (wire t) > max_len"
  then show "ServerStatsSerialize wire t buf0 max_len = (0, buf0)"
    by (simp add: ServerStatsSerialize_def)
next
  assume "length (wire t) \<le> max_len"
  then show "fst (ServerStatsSerialize wire t buf0 max_len) = length (wire t)"
    and "take (length (wire t)) (snd (ServerStatsSerialize wire t buf0 max_len)) = wire t"
    by (simp_all add: ServerStatsSerialize_def Let_def)
next
  assume h: "send_trailing_metadata op = None \<and>
    StartTransportStreamOpBatch wire now buf op this w = Inr (this2, w2)"
  then have r: "StartTransportStreamOpBatch wire now buf op this w = Inr (this2, w2)"
    and n: "send_trailing_metadata op = None"
    by simp_all
  from StartTransportStreamOpBatch_Inr(5) [OF r] n
  show "m_elapsed_time this2 = m_elapsed_time this"
    by simp
  from r n show "metadata_batches w2 = metadata_batches w"
    by (auto simp add: StartTransportStreamOpBatch_def Let_def split: option.splits prod.splits)
qed

theorem C4_send_trailing_metadata_witness:
  "(\<exists>this' w'. StartTransportStreamOpBatch example_wire 5000100 [] op_send_trailing_metadata
        example_calld example_world = Inr (this', w') \<and>
      m_elapsed_time this' = 5000000 \<and>
      metadata_batches w' = (metadata_batches example_world)
        (2 \<mapsto> example_trailing_metadata\<lparr>idx_named_grpc_server_stats_bin := Some ''elapsed-ns''\<rparr>) \<and>
      effects w' = [Eff_grpc_call_next_op op_send_trailing_metadata])
   \<and>
   (\<exists>this' w'. StartTransportStreamOpBatch oversize_wire 5000100 [] op_send_trailing_metadata
        example_calld example_world = Inr (this', w') \<and>
      m_elapsed_time this' = 5000000 \<and>
      metadata_batches w' = metadata_batches example_world \<and>
      effects w' = [Eff_grpc_call_next_op op_send_trailing_metadata])
   \<and>
   (\<exists>this' w'. StartTransportStreamOpBatch example_wire 5000100 [] op_send_trailing_metadata
        example_calld duplicate_world = Inr (this', w') \<and>
      m_elapsed_time this' = 5000000 \<and>
      metadata_batches w' = metadata_batches duplicate_world \<and>
      effects w' =
        [Eff_gpr_log_error ''census grpc_filter'' (GRPC_ERROR ''Unallowed duplicate metadata''),
         Eff_grpc_call_next_op op_send_trailing_metadata])
   \<and>
   ServerStatsSerialize oversize_wire 5000000 ''stack'' 32 = (0, ''stack'')
   \<and>
   fst (ServerStatsSerialize example_wire 5000000 ''stack'' 32) = 10
   \<and>
   take 10 (snd (ServerStatsSerialize example_wire 5000000 ''stack'' 32)) = ''elapsed-ns''
   \<and>
   (\<exists>this2 w2. StartTransportStreamOpBatch example_wire 500 [] op_send_message
        example_calld example_world = Inr (this2, w2) \<and>
      m_elapsed_time this2 = 0 \<and> metadata_batches w2 = metadata_batches example_world)"
proof -
  have v: "m_start_time example_calld = 100" "m_elapsed_time example_calld = 0"
    "effects example_world = []" "effects duplicate_world = []"
    "intercepted op_send_trailing_metadata = op_send_trailing_metadata"
    "idx_named_grpc_server_stats_bin example_trailing_metadata = None"
    "length (example_wire 5000000) = 10" "example_wire 5000000 = ''elapsed-ns''"
    by (simp_all add: example_defs duplicate_world_def intercepted_def absl_ZeroDuration_def)
  have h1: "send_trailing_metadata op_send_trailing_metadata = Some (MetadataBatch (Some 2)) \<and>
      batch (MetadataBatch (Some 2)) = Some 2 \<and>
      metadata_batches example_world 2 = Some example_trailing_metadata \<and>
      ServerStatsSerialize example_wire
        (absl_ToInt64Nanoseconds (5000100 - m_start_time example_calld)) [] 32
        = (10, ''elapsed-ns'')"
    by (simp add: example_defs ServerStatsSerialize_def absl_ToInt64Nanoseconds_def)
  have h2: "send_trailing_metadata op_send_trailing_metadata = Some (MetadataBatch (Some 2)) \<and>
      batch (MetadataBatch (Some 2)) = Some 2 \<and>
      metadata_batches example_world 2 = Some example_trailing_metadata \<and>
      ServerStatsSerialize oversize_wire
        (absl_ToInt64Nanoseconds (5000100 - m_start_time example_calld)) [] 32
        = (0, [])"
    by (simp add: example_defs oversize_wire_def ServerStatsSerialize_def)
  have h3: "send_trailing_metadata op_send_trailing_metadata = Some (MetadataBatch (Some 2)) \<and>
      batch (MetadataBatch (Some 2)) = Some 2 \<and>
      metadata_batches duplicate_world 2 =
        Some (example_trailing_metadata\<lparr>idx_named_grpc_server_stats_bin := Some ''old''\<rparr>) \<and>
      ServerStatsSerialize example_wire
        (absl_ToInt64Nanoseconds (5000100 - m_start_time example_calld)) [] 32
        = (10, ''elapsed-ns'')"
    by (simp add: example_defs duplicate_world_def ServerStatsSerialize_def
        absl_ToInt64Nanoseconds_def)
  have h4: "length (oversize_wire 5000000) > 32"
    by (simp add: oversize_wire_def)
  have h5: "length (example_wire 5000000) \<le> 32"
    by (simp add: example_wire_def)
  have "\<exists>this2 w2. StartTransportStreamOpBatch example_wire 500 [] op_send_message
        example_calld example_world = Inr (this2, w2)"
    by (simp add: StartTransportStreamOpBatch_def example_defs)
  then obtain this2 w2 where r: "StartTransportStreamOpBatch example_wire 500 [] op_send_message
        example_calld example_world = Inr (this2, w2)"
    by blast
  have h6: "send_trailing_metadata op_send_message = None \<and>
      StartTransportStreamOpBatch example_wire 500 [] op_send_message
        example_calld example_world = Inr (this2, w2)"
    using r by (simp add: example_defs)
  have c1: "\<exists>this' w'. StartTransportStreamOpBatch example_wire 5000100 []
        op_send_trailing_metadata example_calld example_world = Inr (this', w') \<and>
      m_elapsed_time this' = 5000000 \<and>
      metadata_batches w' = (metadata_batches example_world)
        (2 \<mapsto> example_trailing_metadata\<lparr>idx_named_grpc_server_stats_bin := Some ''elapsed-ns''\<rparr>) \<and>
      effects w' = [Eff_grpc_call_next_op op_send_trailing_metadata]"
    using C4_send_trailing_metadata [THEN conjunct1, rule_format, OF h1]
    by (simp add: v)
  have c2: "\<exists>this' w'. StartTransportStreamOpBatch oversize_wire 5000100 []
        op_send_trailing_metadata example_calld example_world = Inr (this', w') \<and>
      m_elapsed_time this' = 5000000 \<and>
      metadata_batches w' = metadata_batches example_world \<and>
      effects w' = [Eff_grpc_call_next_op op_send_trailing_metadata]"
    using C4_send_trailing_metadata [THEN conjunct1, rule_format, OF h2]
    by (simp add: v)
  have c3: "\<exists>this' w'. StartTransportStreamOpBatch example_wire 5000100 []
        op_send_trailing_metadata example_calld duplicate_world = Inr (this', w') \<and>
      m_elapsed_time this' = 5000000 \<and>
      metadata_batches w' = metadata_batches duplicate_world \<and>
      effects w' =
        [Eff_gpr_log_error ''census grpc_filter'' (GRPC_ERROR ''Unallowed duplicate metadata''),
         Eff_grpc_call_next_op op_send_trailing_metadata]"
    using C4_send_trailing_metadata [THEN conjunct1, rule_format, OF h3]
    by (simp add: v)
  have c4: "ServerStatsSerialize oversize_wire 5000000 ''stack'' 32 = (0, ''stack'')"
    using C4_send_trailing_metadata [where wire = oversize_wire and t = 5000000
        and max_len = 32 and ?buf0.0 = "''stack''", THEN conjunct2, THEN conjunct1,
        rule_format, OF h4] .
  have c5: "fst (ServerStatsSerialize example_wire 5000000 ''stack'' 32) = 10 \<and>
      take 10 (snd (ServerStatsSerialize example_wire 5000000 ''stack'' 32)) = ''elapsed-ns''"
    using C4_send_trailing_metadata [where wire = example_wire and t = 5000000
        and max_len = 32 and ?buf0.0 = "''stack''", THEN conjunct2, THEN conjunct2,
        THEN conjunct1, rule_format, OF h5, unfolded v(7), unfolded v(8)] .
  have c6: "m_elapsed_time this2 = 0 \<and> metadata_batches w2 = metadata_batches example_world"
    using C4_send_trailing_metadata [THEN conjunct2, THEN conjunct2, THEN conjunct2,
        rule_format, OF h6]
    by (simp add: v)
  from c1 c2 c3 c4 c5 c6 r show ?thesis by blast
qed

subsection \<open>Forwarding the operation batch\<close>

text \<open>
  C8, as the claim states it: every operation batch that the handler processes is
  forwarded to the next stage exactly once and unmodified, but for the server-stats
  entry that may have been appended to its trailing metadata, whatever the batch
  carries. This fails for a batch with a receive operation: \<open>op_recv_message\<close> has
  no trailing metadata and its completion closure is the closure at address 11; the one
  batch that the handler forwards for it is another batch, with the filter's own
  closure in that place.
\<close>

theorem C8_forwarded_unmodified_counterexample:
  "forwarded_ops (StartTransportStreamOpBatch example_wire 300 [] op_recv_message
      example_calld example_world) = Some [intercepted op_recv_message]
   \<and> intercepted op_recv_message \<noteq> op_recv_message
   \<and> recv_message_ready (intercepted op_recv_message) = Some Addr_on_done_recv_message
   \<and> recv_message_ready op_recv_message = Some (Closure_at 11)"
  by (simp add: forwarded_ops_def StartTransportStreamOpBatch_def intercepted_def
      example_defs emit_def)

text \<open>
  C8, amended: every operation batch that the handler processes and returns from is
  forwarded to the next stage exactly once; the batch forwarded is the incoming one
  except that the completion closure of each receive operation it carries (initial
  metadata, message) is replaced by the filter's own, and except for the server-stats
  entry that may have been appended to its trailing metadata; this holds whatever
  combination of the four operations the batch carries.

  The first part says when the handler returns: always, when the batch has no
  trailing metadata or its trailing-metadata batch is in the store. The second part is
  any return of the handler: one more batch has gone to the next stage, the batch
  \<open>intercepted op\<close>; the message slots are untouched; a metadata batch in the store is
  untouched unless it is the trailing metadata of \<open>op\<close>, which may have gained a
  server-stats entry that it did not have. The third part spells out
  \<open>intercepted op\<close> field by field.
\<close>

theorem C8_forwarded_once:
  "((case send_trailing_metadata op of
       None \<Rightarrow> True
     | Some mb \<Rightarrow> (\<exists>a b. batch mb = Some a \<and> metadata_batches w a = Some b)) \<longrightarrow>
      (\<exists>this' w'. StartTransportStreamOpBatch wire now buf op this w = Inr (this', w')))
   \<and>
   (StartTransportStreamOpBatch wire now buf op this w = Inr (this', w') \<longrightarrow>
      next_ops (effects w') = next_ops (effects w) @ [intercepted op] \<and>
      byte_stream_slots w' = byte_stream_slots w \<and>
      (\<forall>x. metadata_batches w' x = metadata_batches w x \<or>
           (\<exists>mb b v. send_trailing_metadata op = Some mb \<and> batch mb = Some x \<and>
              metadata_batches w x = Some b \<and>
              idx_named_grpc_server_stats_bin b = None \<and>
              metadata_batches w' x = Some (b\<lparr>idx_named_grpc_server_stats_bin := Some v\<rparr>))))
   \<and>
   (recv_initial_metadata (intercepted op) = recv_initial_metadata op \<and>
    send_message (intercepted op) = send_message op \<and>
    recv_message (intercepted op) = recv_message op \<and>
    send_trailing_metadata (intercepted op) = send_trailing_metadata op \<and>
    recv_initial_metadata_ready (intercepted op) =
      (if recv_initial_metadata op = None then recv_initial_metadata_ready op
       else Some Addr_on_done_recv_initial_metadata) \<and>
    recv_message_ready (intercepted op) =
      (if recv_message op = None then recv_message_ready op
       else Some Addr_on_done_recv_message))"
proof (intro conjI impI allI)
  assume "case send_trailing_metadata op of
       None \<Rightarrow> True
     | Some mb \<Rightarrow> (\<exists>a b. batch mb = Some a \<and> metadata_batches w a = Some b)"
  then show "\<exists>this' w'. StartTransportStreamOpBatch wire now buf op this w = Inr (this', w')"
    by (rule StartTransportStreamOpBatch_returns)
next
  assume r: "StartTransportStreamOpBatch wire now buf op this w = Inr (this', w')"
  show "next_ops (effects w') = next_ops (effects w) @ [intercepted op]"
    by (rule StartTransportStreamOpBatch_Inr(8) [OF r])
  show "byte_stream_slots w' = byte_stream_slots w"
    by (rule StartTransportStreamOpBatch_Inr(9) [OF r])
  fix x
  show "metadata_batches w' x = metadata_batches w x \<or>
           (\<exists>mb b v. send_trailing_metadata op = Some mb \<and> batch mb = Some x \<and>
              metadata_batches w x = Some b \<and>
              idx_named_grpc_server_stats_bin b = None \<and>
              metadata_batches w' x = Some (b\<lparr>idx_named_grpc_server_stats_bin := Some v\<rparr>))"
    by (auto simp add: StartTransportStreamOpBatch_metadata_batches [OF r]
        grpc_metadata_batch_add_tail_GRPC_SERVER_STATS_BIN_def
        split: option.splits prod.splits)
qed (simp_all add: intercepted_def)

theorem C8_forwarded_once_witness:
  "(\<exists>this' w'. StartTransportStreamOpBatch example_wire 5000100 [] op_send_trailing_metadata
        example_calld example_world = Inr (this', w') \<and>
      next_ops (effects w') = [op_send_trailing_metadata] \<and>
      byte_stream_slots w' = byte_stream_slots example_world \<and>
      metadata_batches w' 1 = metadata_batches example_world 1)
   \<and>
   (\<exists>this' w'. StartTransportStreamOpBatch example_wire 300 [] op_recv_message
        example_calld example_world = Inr (this', w') \<and>
      next_ops (effects w') =
        [op_recv_message\<lparr>recv_message_ready := Some Addr_on_done_recv_message\<rparr>])"
proof -
  have h1: "case send_trailing_metadata op_send_trailing_metadata of
       None \<Rightarrow> True
     | Some mb \<Rightarrow> (\<exists>a b. batch mb = Some a \<and> metadata_batches example_world a = Some b)"
    by (simp add: example_defs)
  have h2: "case send_trailing_metadata op_recv_message of
       None \<Rightarrow> True
     | Some mb \<Rightarrow> (\<exists>a b. batch mb = Some a \<and> metadata_batches example_world a = Some b)"
    by (simp add: example_defs)
  from C8_forwarded_once [THEN conjunct1, rule_format, OF h1] obtain this1 w1 where
    r1: "StartTransportStreamOpBatch example_wire 5000100 [] op_send_trailing_metadata
        example_calld example_world = Inr (this1, w1)"
    by blast
  from C8_forwarded_once [THEN conjunct1, rule_format, OF h2] obtain this2 w2 where
    r2: "StartTransportStreamOpBatch example_wire 300 [] op_recv_message
        example_calld example_world = Inr (this2, w2)"
    by blast
  have v: "effects example_world = []"
    "intercepted op_send_trailing_metadata = op_send_trailing_metadata"
    "intercepted op_recv_message =
       op_recv_message\<lparr>recv_message_ready := Some Addr_on_done_recv_message\<rparr>"
    "send_trailing_metadata op_send_trailing_metadata = Some (MetadataBatch (Some 2))"
    by (simp_all add: example_defs intercepted_def)
  have c1: "next_ops (effects w1) = [op_send_trailing_metadata] \<and>
      byte_stream_slots w1 = byte_stream_slots example_world \<and>
      metadata_batches w1 1 = metadata_batches example_world 1"
    using C8_forwarded_once [THEN conjunct2, THEN conjunct1, rule_format, OF r1] v
    by auto
  have c2: "next_ops (effects w2) =
        [op_recv_message\<lparr>recv_message_ready := Some Addr_on_done_recv_message\<rparr>]"
    using C8_forwarded_once [THEN conjunct2, THEN conjunct1, rule_format, OF r2] v
    by simp
  from r1 r2 c1 c2 show ?thesis by blast
qed

end
